theory Spec2Isabelle
  imports Main "HOL-Library.Char_ord" "HOL-Library.List_Lexorder" "HOL-Library.AList"
begin

section \<open>The logging backend of rlattack (src/rlattack/logger.py)\<close>

text \<open>
  The module is embedded function by function. Conventions:
  \<^item> a Python \<open>str\<close> is a \<open>string\<close> whose characters stand for the code points below 256;
    \<open>len\<close> is \<open>length\<close> and string comparison is the lexicographic order on code points;
  \<^item> a \<open>dict\<close> is an association list in insertion order (Python 3.7 and later):
    \<open>d[k] = v\<close> is \<open>AList.update k v d\<close>, which overwrites in place or appends a new key;
  \<^item> an exception is a value \<open>Inl e\<close>; a method that mutates returns the mutated objects
    next to its outcome, so that what a raise leaves behind is part of the model;
  \<^item> file and event-writer calls are appended to a list of \<open>io_event\<close>s in the order
    in which they happen. Operating-system failures (a disk that is full, a directory
    that cannot be created, a missing tensorflow) are outside the model;
  \<^item> the arithmetic and the printing of IEEE floats belong to the interpreter, not to
    this module: the float type is a type variable \<open>'f\<close> and the interpreter's
    operations on it are the fields of a \<open>runtime\<close> record every definition that needs
    them takes as its first argument.
\<close>

subsection \<open>Values, errors, the interpreter\<close>

datatype py_error =
    NotImplementedError
  | ValueError string
  | TypeError
  | OverflowError
  | AttributeError
  | AssertionError string

text \<open>What \<open>tolist()\<close> of a numpy scalar or array returns: a Python scalar or nested lists.\<close>

datatype 'f pyobj =
    ObjInt int
  | ObjFloat 'f
  | ObjStr string
  | ObjList "'f pyobj list"

text \<open>
  The values a caller logs: native \<open>int\<close>, \<open>float\<close> and \<open>str\<close>; \<open>numpy.float64\<close>
  scalars, which are instances of \<open>float\<close> and have a \<open>dtype\<close>; and every other numpy
  scalar or array (\<open>float32\<close>, \<open>int64\<close>, \<open>ndarray\<close>), which has a \<open>dtype\<close>, is no
  \<open>float\<close>, and is given by what its \<open>tolist()\<close> returns.
\<close>

datatype 'f pyval =
    PyInt int
  | PyFloat 'f
  | PyStr string
  | NpFloat64 'f
  | NdArray "'f pyobj"

record 'f runtime =
  float_of_int :: "int \<Rightarrow> py_error + 'f"
  float_of_str :: "string \<Rightarrow> py_error + 'f"
  format_g :: "'f \<Rightarrow> string"
  repr_float :: "'f \<Rightarrow> string"
  str_ndarray :: "'f pyobj \<Rightarrow> string"

text \<open>
  \<open>float_of_int\<close> is \<open>float(i)\<close> (OverflowError beyond the double range), \<open>float_of_str\<close>
  is \<open>float(s)\<close> (ValueError when \<open>s\<close> is no float literal), \<open>format_g\<close> is
  \<open>'%-8.3g' % (x,)\<close>, \<open>repr_float\<close> is the text \<open>json.dumps\<close> gives a float, and
  \<open>str_ndarray\<close> is numpy's \<open>str\<close>.
\<close>

type_synonym 'f kvs = "(string \<times> 'f pyval) list"

definition isinstance_float :: "'f pyval \<Rightarrow> bool" where
  "isinstance_float v = (case v of PyFloat _ \<Rightarrow> True | NpFloat64 _ \<Rightarrow> True | _ \<Rightarrow> False)"

definition hasattr_dtype :: "'f pyval \<Rightarrow> bool" where
  "hasattr_dtype v = (case v of NpFloat64 _ \<Rightarrow> True | NdArray _ \<Rightarrow> True | _ \<Rightarrow> False)"

text \<open>\<open>v.tolist()\<close>; only called on values with a \<open>dtype\<close> (AttributeError elsewhere).\<close>

definition tolist :: "'f pyval \<Rightarrow> py_error + 'f pyobj" where
  "tolist v = (case v of NpFloat64 f \<Rightarrow> Inr (ObjFloat f) | NdArray x \<Rightarrow> Inr x
               | _ \<Rightarrow> Inl AttributeError)"

text \<open>\<open>float(x)\<close> on what \<open>tolist()\<close> returned: a list is a TypeError.\<close>

definition float_obj :: "'f runtime \<Rightarrow> 'f pyobj \<Rightarrow> py_error + 'f" where
  "float_obj rt x = (case x of ObjInt i \<Rightarrow> float_of_int rt i | ObjFloat f \<Rightarrow> Inr f
                     | ObjStr s \<Rightarrow> float_of_str rt s | ObjList _ \<Rightarrow> Inl TypeError)"

text \<open>The only element of an array of size one, through any number of dimensions.\<close>

fun sole :: "'f pyobj \<Rightarrow> 'f pyobj option" where
  "sole (ObjList [x]) = sole x"
| "sole (ObjList xs) = None"
| "sole x = Some x"

text \<open>\<open>float(v)\<close> on a logged value; numpy converts arrays of size one only.\<close>

definition float_val :: "'f runtime \<Rightarrow> 'f pyval \<Rightarrow> py_error + 'f" where
  "float_val rt v = (case v of PyInt i \<Rightarrow> float_of_int rt i | PyFloat f \<Rightarrow> Inr f
                     | PyStr s \<Rightarrow> float_of_str rt s | NpFloat64 f \<Rightarrow> Inr f
                     | NdArray x \<Rightarrow> (case sole x of None \<Rightarrow> Inl TypeError
                                    | Some y \<Rightarrow> float_obj rt y))"

text \<open>\<open>str(i)\<close> for an \<open>int\<close>: decimal digits, a minus sign when negative.\<close>

fun str_nat :: "nat \<Rightarrow> string" where
  "str_nat n = (if n < 10 then [''0123456789'' ! n]
                else str_nat (n div 10) @ [''0123456789'' ! (n mod 10)])"

definition str_int :: "int \<Rightarrow> string" where
  "str_int i = (if i < 0 then CHR ''-'' # str_nat (nat (- i)) else str_nat (nat i))"

definition py_str :: "'f runtime \<Rightarrow> 'f pyval \<Rightarrow> string" where
  "py_str rt v = (case v of PyInt i \<Rightarrow> str_int i | PyFloat f \<Rightarrow> repr_float rt f
                  | PyStr s \<Rightarrow> s | NpFloat64 f \<Rightarrow> repr_float rt f
                  | NdArray x \<Rightarrow> str_ndarray rt x)"

text \<open>\<open>max\<close> of a sequence raises ValueError on an empty one.\<close>

fun py_max :: "nat list \<Rightarrow> py_error + nat" where
  "py_max [] = Inl (ValueError ''max() arg is an empty sequence'')"
| "py_max (x # xs) = Inr (fold max xs x)"

text \<open>\<open>sep.join(lines)\<close>.\<close>

fun join :: "string \<Rightarrow> string list \<Rightarrow> string" where
  "join sep [] = []"
| "join sep [x] = x"
| "join sep (x # y # ys) = x @ sep @ join sep (y # ys)"

text \<open>\<open>sorted(d.items())\<close>: the keys of a dict are distinct, so the pairs are ordered by key.\<close>

definition sorted_items :: "(string \<times> 'a) list \<Rightarrow> (string \<times> 'a) list" where
  "sorted_items d = sort_key fst d"

subsection \<open>Files and the event writer\<close>

datatype handle = Stdout | File string

datatype 'f io_event =
    Makedirs string
  | Open string
  | Write handle string
  | Flush handle
  | EventsWriter string
  | WriteEvent string nat "(string \<times> 'f) list"
  | FlushEvents string
  | CloseEvents string

text \<open>
  \<open>Open p\<close> is \<open>open(p, 'wt')\<close>, \<open>EventsWriter d\<close> the construction of tensorflow's
  writer for the directory \<open>d\<close>, \<open>WriteEvent d step values\<close> one event with its step and
  its \<open>(tag, simple_value)\<close> pairs (the wall-clock time of the event is not modelled).
\<close>

text \<open>\<open>os.path.join(a, b)\<close> for a relative \<open>b\<close>.\<close>

definition osp_join :: "string \<Rightarrow> string \<Rightarrow> string" where
  "osp_join a b = (if a = [] \<or> last a = CHR ''/'' then a @ b else a @ ''/'' @ b)"

subsection \<open>Output formats\<close>

text \<open>
  The class \<open>OutputFormat\<close> and its three subclasses; a method call dispatches on the
  constructor. The tensorboard format keeps its directory, its step counter and
  whether its writer is still there (\<open>close\<close> sets it to \<open>None\<close>).
\<close>

datatype OutputFormat =
    OutputFormat
  | HumanOutputFormat handle
  | JSONOutputFormat handle
  | TensorBoardOutputFormat string nat bool

definition HumanOutputFormat_truncate :: "string \<Rightarrow> string" where
  "HumanOutputFormat_truncate s = (if length s > 23 then take 20 s @ ''...'' else s)"

definition valstr :: "'f runtime \<Rightarrow> 'f pyval \<Rightarrow> string" where
  "valstr rt val =
     (if isinstance_float val
      then (case val of PyFloat f \<Rightarrow> format_g rt f | NpFloat64 f \<Rightarrow> format_g rt f | _ \<Rightarrow> [])
      else py_str rt val)"

definition human_key2str :: "'f runtime \<Rightarrow> 'f kvs \<Rightarrow> (string \<times> string) list" where
  "human_key2str rt kvs =
     foldl (\<lambda>key2str (key, val).
              AList.update (HumanOutputFormat_truncate key)
                (HumanOutputFormat_truncate (valstr rt val)) key2str)
       [] (sorted_items kvs)"

definition human_row :: "nat \<Rightarrow> nat \<Rightarrow> string \<times> string \<Rightarrow> string" where
  "human_row keywidth valwidth kv =
     (case kv of (key, val) \<Rightarrow>
        ''| '' @ key @ replicate (keywidth - length key) CHR '' '' @ '' | '' @
        val @ replicate (valwidth - length val) CHR '' '' @ '' |'')"

definition HumanOutputFormat_writekvs ::
  "'f runtime \<Rightarrow> handle \<Rightarrow> 'f kvs \<Rightarrow> 'f io_event list \<Rightarrow> (py_error + unit) \<times> 'f io_event list"
where
  "HumanOutputFormat_writekvs rt file kvs io =
     (let key2str = human_key2str rt kvs in
      case py_max (map length (map fst key2str)) of
        Inl e \<Rightarrow> (Inl e, io)
      | Inr keywidth \<Rightarrow>
         (case py_max (map length (map snd key2str)) of
            Inl e \<Rightarrow> (Inl e, io)
          | Inr valwidth \<Rightarrow>
             (let dashes = replicate (keywidth + valwidth + 7) CHR ''-'';
                  lines = [dashes] @ map (human_row keywidth valwidth) (sorted_items key2str)
                          @ [dashes]
              in (Inr (), io @ [Write file (join [CHR 0x0A] lines @ [CHR 0x0A]), Flush file]))))"

definition HumanOutputFormat_writeseq ::
  "handle \<Rightarrow> string list \<Rightarrow> 'f io_event list \<Rightarrow> 'f io_event list"
where
  "HumanOutputFormat_writeseq file args io =
     io @ map (Write file) args @ [Write file [CHR 0x0A], Flush file]"

text \<open>
  \<open>json.dumps\<close> of a dict of strings to scalars, with the default separators and
  \<open>ensure_ascii\<close>: the items in the order of the dict (no \<open>sort_keys\<close> is passed).
\<close>

definition hex4 :: "nat \<Rightarrow> string" where
  "hex4 n = map (\<lambda>d. ''0123456789abcdef'' ! d)
              [n div 4096 mod 16, n div 256 mod 16, n div 16 mod 16, n mod 16]"

definition json_escape_char :: "char \<Rightarrow> string" where
  "json_escape_char c =
     (if c = CHR 0x22 then [CHR 0x5C, CHR 0x22]
      else if c = CHR 0x5C then [CHR 0x5C, CHR 0x5C]
      else if c = CHR 0x0A then [CHR 0x5C, CHR ''n'']
      else if c = CHR 0x0D then [CHR 0x5C, CHR ''r'']
      else if c = CHR 0x09 then [CHR 0x5C, CHR ''t'']
      else if c = CHR 0x08 then [CHR 0x5C, CHR ''b'']
      else if c = CHR 0x0C then [CHR 0x5C, CHR ''f'']
      else if (of_char c :: nat) < 32 \<or> (of_char c :: nat) > 126
        then [CHR 0x5C, CHR ''u''] @ hex4 (of_char c)
      else [c])"

definition json_str :: "string \<Rightarrow> string" where
  "json_str s = [CHR 0x22] @ concat (map json_escape_char s) @ [CHR 0x22]"

definition json_val :: "'f runtime \<Rightarrow> 'f pyval \<Rightarrow> py_error + string" where
  "json_val rt v = (case v of PyInt i \<Rightarrow> Inr (str_int i) | PyFloat f \<Rightarrow> Inr (repr_float rt f)
                    | PyStr s \<Rightarrow> Inr (json_str s) | NpFloat64 f \<Rightarrow> Inr (repr_float rt f)
                    | NdArray x \<Rightarrow> Inl TypeError)"

fun json_items :: "'f runtime \<Rightarrow> 'f kvs \<Rightarrow> py_error + string list" where
  "json_items rt [] = Inr []"
| "json_items rt ((k, v) # kvs) =
     (case json_val rt v of Inl e \<Rightarrow> Inl e
      | Inr s \<Rightarrow> (case json_items rt kvs of Inl e \<Rightarrow> Inl e
                  | Inr ss \<Rightarrow> Inr ((json_str k @ '': '' @ s) # ss)))"

definition json_dumps :: "'f runtime \<Rightarrow> 'f kvs \<Rightarrow> py_error + string" where
  "json_dumps rt kvs = (case json_items rt kvs of Inl e \<Rightarrow> Inl e
                        | Inr ss \<Rightarrow> Inr (''{'' @ join '', '' ss @ ''}''))"

text \<open>
  The loop of \<open>JSONOutputFormat.writekvs\<close> over \<open>sorted(kvs.items())\<close>, a list made
  before the loop starts: a value with a \<open>dtype\<close> is replaced in the caller's dict by
  \<open>float(v.tolist())\<close>. A conversion that raises leaves the earlier replacements.
\<close>

fun json_convert :: "'f runtime \<Rightarrow> 'f kvs \<Rightarrow> 'f kvs \<Rightarrow> (py_error + unit) \<times> 'f kvs" where
  "json_convert rt [] kvs = (Inr (), kvs)"
| "json_convert rt ((k, v) # items) kvs =
     (if hasattr_dtype v
      then (case tolist v of Inl e \<Rightarrow> (Inl e, kvs)
            | Inr x \<Rightarrow> (case float_obj rt x of Inl e \<Rightarrow> (Inl e, kvs)
                        | Inr f \<Rightarrow> json_convert rt items (AList.update k (PyFloat f) kvs)))
      else json_convert rt items kvs)"

definition JSONOutputFormat_writekvs ::
  "'f runtime \<Rightarrow> handle \<Rightarrow> 'f kvs \<Rightarrow> 'f io_event list
   \<Rightarrow> (py_error + unit) \<times> 'f kvs \<times> 'f io_event list"
where
  "JSONOutputFormat_writekvs rt file kvs io =
     (case json_convert rt (sorted_items kvs) kvs of
        (Inl e, kvs') \<Rightarrow> (Inl e, kvs', io)
      | (Inr u, kvs') \<Rightarrow>
         (case json_dumps rt kvs' of
            Inl e \<Rightarrow> (Inl e, kvs', io)
          | Inr text \<Rightarrow> (Inr (), kvs', io @ [Write file (text @ [CHR 0x0A]), Flush file])))"

text \<open>\<open>[summary_val(k, v) for k, v in kvs.items()]\<close>: \<open>float(v)\<close> for every item, in dict order.\<close>

fun summary_vals :: "'f runtime \<Rightarrow> 'f kvs \<Rightarrow> py_error + (string \<times> 'f) list" where
  "summary_vals rt [] = Inr []"
| "summary_vals rt ((k, v) # kvs) =
     (case float_val rt v of Inl e \<Rightarrow> Inl e
      | Inr f \<Rightarrow> (case summary_vals rt kvs of Inl e \<Rightarrow> Inl e
                  | Inr vs \<Rightarrow> Inr ((k, f) # vs)))"

definition TensorBoardOutputFormat_init ::
  "string \<Rightarrow> 'f io_event list \<Rightarrow> OutputFormat \<times> 'f io_event list"
where
  "TensorBoardOutputFormat_init dir io =
     (TensorBoardOutputFormat dir 1 True, io @ [Makedirs dir, EventsWriter dir])"

definition TensorBoardOutputFormat_writekvs ::
  "'f runtime \<Rightarrow> string \<Rightarrow> nat \<Rightarrow> bool \<Rightarrow> 'f kvs \<Rightarrow> 'f io_event list
   \<Rightarrow> (py_error + unit) \<times> OutputFormat \<times> 'f io_event list"
where
  "TensorBoardOutputFormat_writekvs rt dir step writer kvs io =
     (case summary_vals rt kvs of
        Inl e \<Rightarrow> (Inl e, TensorBoardOutputFormat dir step writer, io)
      | Inr vals \<Rightarrow>
         (if \<not> writer then (Inl AttributeError, TensorBoardOutputFormat dir step writer, io)
          else (Inr (), TensorBoardOutputFormat dir (step + 1) writer,
                io @ [WriteEvent dir step vals, FlushEvents dir])))"

text \<open>The three methods of an output format, dispatched on its class.\<close>

definition writekvs ::
  "'f runtime \<Rightarrow> OutputFormat \<Rightarrow> 'f kvs \<Rightarrow> 'f io_event list
   \<Rightarrow> (py_error + unit) \<times> OutputFormat \<times> 'f kvs \<times> 'f io_event list"
where
  "writekvs rt fmt kvs io =
     (case fmt of
        OutputFormat \<Rightarrow> (Inl NotImplementedError, fmt, kvs, io)
      | HumanOutputFormat file \<Rightarrow>
          (case HumanOutputFormat_writekvs rt file kvs io of (r, io') \<Rightarrow> (r, fmt, kvs, io'))
      | JSONOutputFormat file \<Rightarrow>
          (case JSONOutputFormat_writekvs rt file kvs io of (r, kvs', io') \<Rightarrow> (r, fmt, kvs', io'))
      | TensorBoardOutputFormat dir step writer \<Rightarrow>
          (case TensorBoardOutputFormat_writekvs rt dir step writer kvs io of
             (r, fmt', io') \<Rightarrow> (r, fmt', kvs, io')))"

definition writeseq :: "OutputFormat \<Rightarrow> string list \<Rightarrow> 'f io_event list \<Rightarrow> 'f io_event list" where
  "writeseq fmt args io =
     (case fmt of HumanOutputFormat file \<Rightarrow> HumanOutputFormat_writeseq file args io
      | _ \<Rightarrow> io)"

definition close_format :: "OutputFormat \<Rightarrow> 'f io_event list \<Rightarrow> OutputFormat \<times> 'f io_event list" where
  "close_format fmt io =
     (case fmt of
        TensorBoardOutputFormat dir step writer \<Rightarrow>
          (if writer then (TensorBoardOutputFormat dir step False, io @ [CloseEvents dir])
           else (fmt, io))
      | _ \<Rightarrow> (fmt, io))"

definition make_output_format ::
  "string \<Rightarrow> string \<Rightarrow> 'f io_event list \<Rightarrow> (py_error + OutputFormat) \<times> 'f io_event list"
where
  "make_output_format format ev_dir io =
     (let io1 = io @ [Makedirs ev_dir] in
      if format = ''stdout'' then (Inr (HumanOutputFormat Stdout), io1)
      else if format = ''log'' then
        (let p = osp_join ev_dir ''log.txt'' in (Inr (HumanOutputFormat (File p)), io1 @ [Open p]))
      else if format = ''json'' then
        (let p = osp_join ev_dir ''progress.json'' in
         (Inr (JSONOutputFormat (File p)), io1 @ [Open p]))
      else if format = ''tensorboard'' then
        (case TensorBoardOutputFormat_init (osp_join ev_dir ''tb'') io1 of
           (fmt, io2) \<Rightarrow> (Inr fmt, io2))
      else (Inl (ValueError (''Unknown format specified: '' @ format)), io1))"

subsection \<open>The Logger\<close>

definition LOG_OUTPUT_FORMATS :: "string list" where
  "LOG_OUTPUT_FORMATS = [''stdout'', ''log'', ''json'']"

definition DEBUG :: int where "DEBUG = 10"
definition INFO :: int where "INFO = 20"
definition WARN :: int where "WARN = 30"
definition ERROR :: int where "ERROR = 40"
definition DISABLED :: int where "DISABLED = 50"

record 'f Logger =
  name2val :: "'f kvs"
  level :: int
  dir :: "string option"
  output_formats :: "OutputFormat list"

definition Logger_init :: "string option \<Rightarrow> OutputFormat list \<Rightarrow> 'f Logger" where
  "Logger_init d fmts = \<lparr>name2val = [], level = INFO, dir = d, output_formats = fmts\<rparr>"

definition Logger_logkv :: "string \<Rightarrow> 'f pyval \<Rightarrow> 'f Logger \<Rightarrow> 'f Logger" where
  "Logger_logkv key val self = self\<lparr>name2val := AList.update key val (name2val self)\<rparr>"

text \<open>
  The loop \<open>for fmt in self.output_formats: fmt.writekvs(self.name2val)\<close>. Every format
  is handed the same dict object, so a format sees what the formats before it did to
  the dict; the first raise ends the loop.
\<close>

fun writekvs_loop ::
  "'f runtime \<Rightarrow> OutputFormat list \<Rightarrow> 'f kvs \<Rightarrow> 'f io_event list
   \<Rightarrow> (py_error + unit) \<times> OutputFormat list \<times> 'f kvs \<times> 'f io_event list"
where
  "writekvs_loop rt [] kvs io = (Inr (), [], kvs, io)"
| "writekvs_loop rt (fmt # fmts) kvs io =
     (case writekvs rt fmt kvs io of
        (Inl e, fmt', kvs', io') \<Rightarrow> (Inl e, fmt' # fmts, kvs', io')
      | (Inr u, fmt', kvs', io') \<Rightarrow>
          (case writekvs_loop rt fmts kvs' io' of
             (r, fmts', kvs'', io'') \<Rightarrow> (r, fmt' # fmts', kvs'', io'')))"

definition Logger_dumpkvs ::
  "'f runtime \<Rightarrow> 'f Logger \<Rightarrow> 'f io_event list
   \<Rightarrow> (py_error + unit) \<times> 'f Logger \<times> 'f io_event list"
where
  "Logger_dumpkvs rt self io =
     (if level self = DISABLED then (Inr (), self, io)
      else (case writekvs_loop rt (output_formats self) (name2val self) io of
              (Inl e, fmts', kvs', io') \<Rightarrow>
                (Inl e, self\<lparr>name2val := kvs', output_formats := fmts'\<rparr>, io')
            | (Inr u, fmts', kvs', io') \<Rightarrow>
                (Inr (), self\<lparr>name2val := [], output_formats := fmts'\<rparr>, io')))"

definition Logger_do_log :: "'f Logger \<Rightarrow> string list \<Rightarrow> 'f io_event list \<Rightarrow> 'f io_event list" where
  "Logger_do_log self args io = foldl (\<lambda>io' fmt. writeseq fmt args io') io (output_formats self)"

definition Logger_log ::
  "'f Logger \<Rightarrow> string list \<Rightarrow> int \<Rightarrow> 'f io_event list \<Rightarrow> 'f io_event list"
where
  "Logger_log self args lvl io = (if level self \<le> lvl then Logger_do_log self args io else io)"

definition Logger_set_level :: "int \<Rightarrow> 'f Logger \<Rightarrow> 'f Logger" where
  "Logger_set_level lvl self = self\<lparr>level := lvl\<rparr>"

definition Logger_get_dir :: "'f Logger \<Rightarrow> string option" where
  "Logger_get_dir self = dir self"

fun close_loop :: "OutputFormat list \<Rightarrow> 'f io_event list \<Rightarrow> OutputFormat list \<times> 'f io_event list" where
  "close_loop [] io = ([], io)"
| "close_loop (fmt # fmts) io =
     (case close_format fmt io of
        (fmt', io') \<Rightarrow> (case close_loop fmts io' of (fmts', io'') \<Rightarrow> (fmt' # fmts', io'')))"

definition Logger_close :: "'f Logger \<Rightarrow> 'f io_event list \<Rightarrow> 'f Logger \<times> 'f io_event list" where
  "Logger_close self io =
     (case close_loop (output_formats self) io of
        (fmts', io') \<Rightarrow> (self\<lparr>output_formats := fmts'\<rparr>, io'))"

subsection \<open>The module: \<open>Logger.DEFAULT\<close>, \<open>Logger.CURRENT\<close> and the free functions\<close>

text \<open>
  \<open>configure\<close> compares \<open>Logger.CURRENT\<close> and \<open>Logger.DEFAULT\<close> with \<open>is\<close>, so loggers
  live in a store and the two class attributes are addresses. \<open>fresh\<close> is the next
  address the store hands out.
\<close>

record 'f state =
  heap :: "nat \<Rightarrow> 'f Logger"
  fresh :: nat
  DEFAULT :: nat
  CURRENT :: nat
  iolog :: "'f io_event list"

text \<open>What the process gives the module: \<open>$OPENAI_LOGDIR\<close>, and the directory name
  \<open>configure\<close> makes from the temporary directory and the time of the call.\<close>

record env =
  OPENAI_LOGDIR :: "string option"
  tempdir_now :: string

text \<open>The assignment \<open>Logger.DEFAULT = Logger.CURRENT = Logger(dir=None, ...)\<close> at import.\<close>

definition module_state :: "'f state" where
  "module_state =
     \<lparr>heap = (\<lambda>_. Logger_init None [HumanOutputFormat Stdout]),
      fresh = 1, DEFAULT = 0, CURRENT = 0, iolog = []\<rparr>"

definition current :: "'f state \<Rightarrow> 'f Logger" where
  "current s = heap s (CURRENT s)"

definition logkv :: "string \<Rightarrow> 'f pyval \<Rightarrow> 'f state \<Rightarrow> 'f state" where
  "logkv key val s = s\<lparr>heap := (heap s)(CURRENT s := Logger_logkv key val (current s))\<rparr>"

definition logkvs :: "'f kvs \<Rightarrow> 'f state \<Rightarrow> 'f state" where
  "logkvs d s = foldl (\<lambda>s' (k, v). logkv k v s') s d"

definition dumpkvs :: "'f runtime \<Rightarrow> 'f state \<Rightarrow> (py_error + unit) \<times> 'f state" where
  "dumpkvs rt s =
     (case Logger_dumpkvs rt (current s) (iolog s) of
        (r, self', io') \<Rightarrow> (r, s\<lparr>heap := (heap s)(CURRENT s := self'), iolog := io'\<rparr>))"

definition getkvs :: "'f state \<Rightarrow> 'f kvs" where
  "getkvs s = name2val (current s)"

definition log :: "string list \<Rightarrow> int \<Rightarrow> 'f state \<Rightarrow> 'f state" where
  "log args lvl s = s\<lparr>iolog := Logger_log (current s) args lvl (iolog s)\<rparr>"

definition debug :: "string list \<Rightarrow> 'f state \<Rightarrow> 'f state" where
  "debug args s = log args DEBUG s"

definition info :: "string list \<Rightarrow> 'f state \<Rightarrow> 'f state" where
  "info args s = log args INFO s"

definition warn :: "string list \<Rightarrow> 'f state \<Rightarrow> 'f state" where
  "warn args s = log args WARN s"

definition error :: "string list \<Rightarrow> 'f state \<Rightarrow> 'f state" where
  "error args s = log args ERROR s"

definition set_level :: "int \<Rightarrow> 'f state \<Rightarrow> 'f state" where
  "set_level lvl s = s\<lparr>heap := (heap s)(CURRENT s := Logger_set_level lvl (current s))\<rparr>"

definition get_dir :: "'f state \<Rightarrow> string option" where
  "get_dir s = Logger_get_dir (current s)"

text \<open>\<open>[make_output_format(f, dir) for f in format_strs]\<close>: the first raise ends it.\<close>

fun make_output_formats ::
  "string list \<Rightarrow> string \<Rightarrow> 'f io_event list \<Rightarrow> (py_error + OutputFormat list) \<times> 'f io_event list"
where
  "make_output_formats [] d io = (Inr [], io)"
| "make_output_formats (f # fs) d io =
     (case make_output_format f d io of
        (Inl e, io') \<Rightarrow> (Inl e, io')
      | (Inr fmt, io') \<Rightarrow>
          (case make_output_formats fs d io' of
             (Inl e, io'') \<Rightarrow> (Inl e, io'')
           | (Inr fmts, io'') \<Rightarrow> (Inr (fmt # fmts), io'')))"

definition configure ::
  "env \<Rightarrow> string option \<Rightarrow> string list option \<Rightarrow> 'f state \<Rightarrow> (py_error + unit) \<times> 'f state"
where
  "configure e d format_strs s =
     (if CURRENT s \<noteq> DEFAULT s
      then (Inl (AssertionError
              (''Only call logger.configure() when it's in the default state. '' @
               ''Try calling logger.reset() first.'')), s)
      else
        (let d1 = (case d of None \<Rightarrow> OPENAI_LOGDIR e | Some x \<Rightarrow> Some x);
             d2 = (case d1 of None \<Rightarrow> tempdir_now e | Some x \<Rightarrow> x);
             fs = (case format_strs of None \<Rightarrow> LOG_OUTPUT_FORMATS | Some x \<Rightarrow> x)
         in case make_output_formats fs d2 (iolog s) of
              (Inl err, io') \<Rightarrow> (Inl err, s\<lparr>iolog := io'\<rparr>)
            | (Inr fmts, io') \<Rightarrow>
                (Inr (), log [''Logging to '' @ d2] INFO
                   (s\<lparr>heap := (heap s)(fresh s := Logger_init (Some d2) fmts),
                      fresh := Suc (fresh s), CURRENT := fresh s, iolog := io'\<rparr>))))"

definition reset :: "'f state \<Rightarrow> 'f state" where
  "reset s = log [''Reset logger''] INFO (s\<lparr>CURRENT := DEFAULT s\<rparr>)"

text \<open>The module body: the default logger, then \<open>configure\<close> when \<open>$OPENAI_LOGDIR\<close> is
  set to a non-empty string.\<close>

definition module_init :: "env \<Rightarrow> (py_error + unit) \<times> 'f state" where
  "module_init e =
     (case OPENAI_LOGDIR e of
        None \<Rightarrow> (Inr (), module_state)
      | Some d \<Rightarrow> (if d = [] then (Inr (), module_state)
                   else configure e (Some d) None module_state))"

text \<open>Every address in use is below \<open>fresh\<close>: a new Logger is a new object.\<close>

definition wf_state :: "'f state \<Rightarrow> bool" where
  "wf_state s = (DEFAULT s < fresh s \<and> CURRENT s < fresh s)"

section \<open>Properties\<close>

subsection \<open>The loop over the output formats\<close>


lemma writekvs_loop_Inr_length:
  "writekvs_loop rt fmts kvs io = (Inr u, fmts', kvs', io') \<Longrightarrow> length fmts' = length fmts"
  by (induction fmts arbitrary: kvs io fmts' kvs' io')
     (auto split: prod.splits sum.splits)

lemma writekvs_loop_chain:
  "writekvs_loop rt fmts kvs io = (Inr u, fmts', kvs', io') \<Longrightarrow>
   \<exists>bufs ios. length bufs = Suc (length fmts) \<and> length ios = Suc (length fmts) \<and>
     bufs ! 0 = kvs \<and> ios ! 0 = io \<and> bufs ! length fmts = kvs' \<and> ios ! length fmts = io' \<and>
     (\<forall>i<length fmts. writekvs rt (fmts ! i) (bufs ! i) (ios ! i)
                       = (Inr (), fmts' ! i, bufs ! Suc i, ios ! Suc i))"
proof (induction fmts arbitrary: kvs io fmts' kvs' io')
  case Nil
  then show ?case by (auto intro!: exI[of _ "[kvs]"] exI[of _ "[io]"])
next
  case (Cons fmt fmts)
  from Cons.prems obtain fmt1 kvs1 io1 fmts1 where
    step: "writekvs rt fmt kvs io = (Inr (), fmt1, kvs1, io1)" and
    rest: "writekvs_loop rt fmts kvs1 io1 = (Inr u, fmts1, kvs', io')" and
    eq: "fmts' = fmt1 # fmts1"
    by (auto split: prod.splits sum.splits)
  from Cons.IH[OF rest] obtain bufs ios where
    c: "length bufs = Suc (length fmts)" "length ios = Suc (length fmts)"
       "bufs ! 0 = kvs1" "ios ! 0 = io1" "bufs ! length fmts = kvs'" "ios ! length fmts = io'"
       "\<forall>i<length fmts. writekvs rt (fmts ! i) (bufs ! i) (ios ! i)
                       = (Inr (), fmts1 ! i, bufs ! Suc i, ios ! Suc i)"
    by blast
  have "\<forall>i<length (fmt # fmts). writekvs rt ((fmt # fmts) ! i) ((kvs # bufs) ! i) ((io # ios) ! i)
          = (Inr (), fmts' ! i, (kvs # bufs) ! Suc i, (io # ios) ! Suc i)"
    using step c eq by (auto simp: nth_Cons split: nat.splits)
  then show ?case
    using c by (intro exI[of _ "kvs # bufs"] exI[of _ "io # ios"]) simp
qed

lemma chain_writekvs_loop:
  "length bufs = Suc (length fmts) \<Longrightarrow> length ios = Suc (length fmts) \<Longrightarrow>
   length fmts' = length fmts \<Longrightarrow>
   \<forall>i<length fmts. writekvs rt (fmts ! i) (bufs ! i) (ios ! i)
                     = (Inr (), fmts' ! i, bufs ! Suc i, ios ! Suc i) \<Longrightarrow>
   writekvs_loop rt fmts (bufs ! 0) (ios ! 0) = (Inr (), fmts', bufs ! length fmts, ios ! length fmts)"
proof (induction fmts arbitrary: bufs ios fmts')
  case Nil
  then show ?case by simp
next
  case (Cons fmt fmts)
  from Cons.prems obtain b bufs1 where b: "bufs = b # bufs1" by (cases bufs) auto
  from Cons.prems obtain c ios1 where c: "ios = c # ios1" by (cases ios) auto
  from Cons.prems obtain f fmts1 where f: "fmts' = f # fmts1" by (cases fmts') auto
  have step: "writekvs rt fmt b c = (Inr (), f, bufs1 ! 0, ios1 ! 0)"
    using Cons.prems(4)[rule_format, of 0] b c f by simp
  have "\<forall>i<length fmts. writekvs rt (fmts ! i) (bufs1 ! i) (ios1 ! i)
                     = (Inr (), fmts1 ! i, bufs1 ! Suc i, ios1 ! Suc i)"
  proof (intro allI impI)
    fix i assume "i < length fmts"
    then show "writekvs rt (fmts ! i) (bufs1 ! i) (ios1 ! i)
                     = (Inr (), fmts1 ! i, bufs1 ! Suc i, ios1 ! Suc i)"
      using Cons.prems(4)[rule_format, of "Suc i"] b c f by simp
  qed
  then have "writekvs_loop rt fmts (bufs1 ! 0) (ios1 ! 0)
       = (Inr (), fmts1, bufs1 ! length fmts, ios1 ! length fmts)"
    using Cons.IH[of bufs1 ios1 fmts1] Cons.prems b c f by simp
  then show ?case using step b c f by simp
qed


lemma writekvs_loop_Inl:
  "writekvs_loop rt fmts kvs io = (Inl e, fmts', kvs', io') \<Longrightarrow>
   length fmts' = length fmts \<and>
   (\<exists>i<length fmts. \<exists>b c.
      writekvs_loop rt (take i fmts) kvs io = (Inr (), take i fmts', b, c) \<and>
      writekvs rt (fmts ! i) b c = (Inl e, fmts' ! i, kvs', io') \<and>
      drop (Suc i) fmts' = drop (Suc i) fmts)"
proof (induction fmts arbitrary: kvs io fmts' kvs' io')
  case Nil
  then show ?case by simp
next
  case (Cons fmt fmts)
  obtain r fmt1 kvs1 io1 where step: "writekvs rt fmt kvs io = (r, fmt1, kvs1, io1)"
    by (metis prod_cases4)
  show ?case
  proof (cases r)
    case (Inl e1)
    with step Cons.prems have "e1 = e" "fmts' = fmt1 # fmts" "kvs' = kvs1" "io' = io1"
      by auto
    with step Inl show ?thesis
      by (auto intro!: exI[of _ 0])
  next
    case (Inr u)
    with step Cons.prems obtain fmts1 where
      rest: "writekvs_loop rt fmts kvs1 io1 = (Inl e, fmts1, kvs', io')" and
      eq: "fmts' = fmt1 # fmts1"
      by (auto split: prod.splits)
    from Cons.IH[OF rest] obtain i b c where
      i: "i < length fmts" "length fmts1 = length fmts"
         "writekvs_loop rt (take i fmts) kvs1 io1 = (Inr (), take i fmts1, b, c)"
         "writekvs rt (fmts ! i) b c = (Inl e, fmts1 ! i, kvs', io')"
         "drop (Suc i) fmts1 = drop (Suc i) fmts"
      by blast
    then show ?thesis
      using step Inr eq by (auto intro!: exI[of _ "Suc i"])
  qed
qed

lemma update_keys_mem:
  "k \<in> fst ` set al \<Longrightarrow> map fst (AList.update k v al) = map fst al"
  by (induction al) auto

lemma json_convert_keys:
  "json_convert rt items kvs = (r, kvs') \<Longrightarrow> fst ` set items \<subseteq> fst ` set kvs \<Longrightarrow>
   map fst kvs' = map fst kvs"
proof (induction items arbitrary: kvs)
  case Nil
  then show ?case by simp
next
  case (Cons kv items)
  obtain k v where kv: "kv = (k, v)" by (cases kv)
  have mem: "k \<in> fst ` set kvs" using Cons.prems(2) kv by auto
  show ?case
  proof (cases "hasattr_dtype v")
    case False
    with Cons kv show ?thesis by auto
  next
    case True
    show ?thesis
    proof (cases "tolist v")
      case (Inl e)
      with True Cons.prems kv show ?thesis by simp
    next
      case (Inr x)
      show ?thesis
      proof (cases "float_obj rt x")
        case (Inl e)
        with True Inr Cons.prems kv show ?thesis by simp
      next
        case f: (Inr f)
        let ?kvs1 = "AList.update k (PyFloat f) kvs"
        have k1: "map fst ?kvs1 = map fst kvs" using mem by (rule update_keys_mem)
        then have s1: "fst ` set ?kvs1 = fst ` set kvs" by (metis list.set_map)
        have "json_convert rt items ?kvs1 = (r, kvs')"
          using True Inr f Cons.prems(1) kv by simp
        then have "map fst kvs' = map fst ?kvs1"
          using Cons.IH[of ?kvs1] Cons.prems(2) s1 by auto
        with k1 show ?thesis by simp
      qed
    qed
  qed
qed

lemma set_sorted_items [simp]: "set (sorted_items d) = set d"
  by (simp add: sorted_items_def)

lemma json_convert_sorted_keys:
  "json_convert rt (sorted_items kvs) kvs = (r, kvs') \<Longrightarrow> map fst kvs' = map fst kvs"
  by (erule json_convert_keys) simp

lemma writekvs_keys:
  "writekvs rt fmt kvs io = (r, fmt', kvs', io') \<Longrightarrow> map fst kvs' = map fst kvs"
  by (cases fmt)
     (auto simp: writekvs_def JSONOutputFormat_writekvs_def split: prod.splits sum.splits
           dest: json_convert_sorted_keys)

lemma writekvs_loop_keys:
  "writekvs_loop rt fmts kvs io = (r, fmts', kvs', io') \<Longrightarrow> map fst kvs' = map fst kvs"
proof (induction fmts arbitrary: kvs io r fmts' kvs' io')
  case Nil
  then show ?case by simp
next
  case (Cons fmt fmts)
  then show ?case
    by (fastforce split: prod.splits sum.splits dest: writekvs_keys)
qed



subsection \<open>\<open>Logger.dumpkvs\<close>\<close>

text \<open>
  C1. A Logger whose level is \<open>DISABLED\<close> returns from \<open>dumpkvs\<close> at
  once: nothing is written and the buffer stays. Otherwise, with no output format,
  \<open>dumpkvs\<close> only clears the buffer. Otherwise, if the \<open>writekvs\<close> of every format
  returns when the formats are called in list order, each on the buffer as the formats
  before it left it (\<open>bufs ! i\<close>, starting from \<open>name2val\<close>) and on the files as they
  left them (\<open>ios ! i\<close>), then \<open>dumpkvs\<close> returns, its effects are exactly those
  calls, and the buffer is empty afterwards. Conversely every \<open>dumpkvs\<close> that returns
  made exactly such a chain of calls and left the buffer empty.
\<close>

theorem dumpkvs_fan_out:
  "(level self = DISABLED \<longrightarrow> Logger_dumpkvs rt self io = (Inr (), self, io)) \<and>
   (level self \<noteq> DISABLED \<longrightarrow> output_formats self = [] \<longrightarrow>
      Logger_dumpkvs rt self io = (Inr (), self\<lparr>name2val := []\<rparr>, io)) \<and>
   (level self \<noteq> DISABLED \<longrightarrow>
      length bufs = Suc (length (output_formats self)) \<longrightarrow>
      length ios = Suc (length (output_formats self)) \<longrightarrow>
      length fmts' = length (output_formats self) \<longrightarrow>
      bufs ! 0 = name2val self \<longrightarrow> ios ! 0 = io \<longrightarrow>
      (\<forall>i<length (output_formats self).
          writekvs rt (output_formats self ! i) (bufs ! i) (ios ! i)
            = (Inr (), fmts' ! i, bufs ! Suc i, ios ! Suc i)) \<longrightarrow>
      Logger_dumpkvs rt self io
        = (Inr (), self\<lparr>name2val := [], output_formats := fmts'\<rparr>,
           ios ! length (output_formats self))) \<and>
   (level self \<noteq> DISABLED \<longrightarrow> Logger_dumpkvs rt self io = (Inr (), self', io') \<longrightarrow>
      name2val self' = [] \<and>
      (\<exists>bufs ios.
          length bufs = Suc (length (output_formats self)) \<and>
          length ios = Suc (length (output_formats self)) \<and>
          bufs ! 0 = name2val self \<and> ios ! 0 = io \<and>
          ios ! length (output_formats self) = io' \<and>
          (\<forall>i<length (output_formats self).
              writekvs rt (output_formats self ! i) (bufs ! i) (ios ! i)
                = (Inr (), output_formats self' ! i, bufs ! Suc i, ios ! Suc i))))"
proof (intro conjI impI)
  assume "level self = DISABLED"
  then show "Logger_dumpkvs rt self io = (Inr (), self, io)"
    by (simp add: Logger_dumpkvs_def)
next
  assume "level self \<noteq> DISABLED" "output_formats self = []"
  then show "Logger_dumpkvs rt self io = (Inr (), self\<lparr>name2val := []\<rparr>, io)"
    by (simp add: Logger_dumpkvs_def)
next
  assume lv: "level self \<noteq> DISABLED"
    and len: "length bufs = Suc (length (output_formats self))"
             "length ios = Suc (length (output_formats self))"
             "length fmts' = length (output_formats self)"
    and start: "bufs ! 0 = name2val self" "ios ! 0 = io"
    and calls: "\<forall>i<length (output_formats self).
          writekvs rt (output_formats self ! i) (bufs ! i) (ios ! i)
            = (Inr (), fmts' ! i, bufs ! Suc i, ios ! Suc i)"
  have "writekvs_loop rt (output_formats self) (bufs ! 0) (ios ! 0)
          = (Inr (), fmts', bufs ! length (output_formats self),
             ios ! length (output_formats self))"
    using len calls by (rule chain_writekvs_loop)
  then show "Logger_dumpkvs rt self io
        = (Inr (), self\<lparr>name2val := [], output_formats := fmts'\<rparr>,
           ios ! length (output_formats self))"
    using lv start by (simp add: Logger_dumpkvs_def)
next
  assume lv: "level self \<noteq> DISABLED"
    and ret: "Logger_dumpkvs rt self io = (Inr (), self', io')"
  obtain r fmts1 kvs1 io1 where
    loop: "writekvs_loop rt (output_formats self) (name2val self) io = (r, fmts1, kvs1, io1)"
    by (metis prod_cases4)
  with lv ret have r: "r = Inr ()"
    and s: "self' = self\<lparr>name2val := [], output_formats := fmts1\<rparr>" and i: "io' = io1"
    by (auto simp: Logger_dumpkvs_def split: sum.splits)
  from s show "name2val self' = []" by simp
  from writekvs_loop_chain[OF loop[unfolded r]] s i
  show "\<exists>bufs ios.
          length bufs = Suc (length (output_formats self)) \<and>
          length ios = Suc (length (output_formats self)) \<and>
          bufs ! 0 = name2val self \<and> ios ! 0 = io \<and>
          ios ! length (output_formats self) = io' \<and>
          (\<forall>i<length (output_formats self).
              writekvs rt (output_formats self ! i) (bufs ! i) (ios ! i)
                = (Inr (), output_formats self' ! i, bufs ! Suc i, ios ! Suc i))"
    by auto
qed

lemma json_single_int:
  "JSONOutputFormat_writekvs rt file [(''n'', PyInt 3)] io
     = (Inr (), [(''n'', PyInt 3)], io @ [Write file (''{'' @ [CHR 0x22] @ ''n'' @ [CHR 0x22] @ '': 3}'' @ [CHR 0x0A]), Flush file])"
  by (simp add: JSONOutputFormat_writekvs_def sorted_items_def hasattr_dtype_def
        json_dumps_def json_val_def json_str_def json_escape_char_def str_int_def)


lemma human_single_int:
  "HumanOutputFormat_writekvs rt file [(''n'', PyInt 3)] io
     = (Inr (), io @ [Write file (''---------'' @ [CHR 0x0A] @ ''| n | 3 |'' @ [CHR 0x0A] @ ''---------'' @ [CHR 0x0A]), Flush file])"
  by (simp add: HumanOutputFormat_writekvs_def human_key2str_def sorted_items_def valstr_def
        isinstance_float_def py_str_def str_int_def HumanOutputFormat_truncate_def human_row_def
        Let_def eval_nat_numeral)


text \<open>
  A Logger with the JSON format and the console format and one logged value: both
  formats are written, in that order, and the buffer is cleared.
\<close>

theorem dumpkvs_fan_out_witness:
  "\<forall>rt. level (\<lparr>name2val = [(''n'', PyInt 3)], level = INFO, dir = None,
          output_formats = [JSONOutputFormat (File ''progress.json''), HumanOutputFormat Stdout]\<rparr>
          :: 'f Logger) \<noteq> DISABLED \<and>
     Logger_dumpkvs rt
        (\<lparr>name2val = [(''n'', PyInt 3)], level = INFO, dir = None,
          output_formats = [JSONOutputFormat (File ''progress.json''), HumanOutputFormat Stdout]\<rparr>
          :: 'f Logger) []
      = (Inr (),
         \<lparr>name2val = [], level = INFO, dir = None,
          output_formats = [JSONOutputFormat (File ''progress.json''), HumanOutputFormat Stdout]\<rparr>,
         [Write (File ''progress.json'') (''{'' @ [CHR 0x22] @ ''n'' @ [CHR 0x22] @ '': 3}'' @ [CHR 0x0A]),
          Flush (File ''progress.json''),
          Write Stdout (''---------'' @ [CHR 0x0A] @ ''| n | 3 |'' @ [CHR 0x0A] @ ''---------'' @ [CHR 0x0A]),
          Flush Stdout])"
proof (intro allI conjI)
  fix rt :: "'f runtime"
  let ?fmts = "[JSONOutputFormat (File ''progress.json''), HumanOutputFormat Stdout]"
  let ?self = "\<lparr>name2val = [(''n'', PyInt 3)], level = INFO, dir = None,
                 output_formats = ?fmts\<rparr> :: 'f Logger"
  let ?io1 = "[Write (File ''progress.json'') (''{'' @ [CHR 0x22] @ ''n'' @ [CHR 0x22] @ '': 3}'' @ [CHR 0x0A]),
               Flush (File ''progress.json'')] :: 'f io_event list"
  let ?io2 = "[Write (File ''progress.json'') (''{'' @ [CHR 0x22] @ ''n'' @ [CHR 0x22] @ '': 3}'' @ [CHR 0x0A]),
               Flush (File ''progress.json''),
               Write Stdout (''---------'' @ [CHR 0x0A] @ ''| n | 3 |'' @ [CHR 0x0A] @ ''---------'' @ [CHR 0x0A]),
               Flush Stdout] :: 'f io_event list"
  let ?bufs = "[[(''n'', PyInt 3)], [(''n'', PyInt 3)], [(''n'', PyInt 3)]] :: 'f kvs list"
  let ?ios = "[[], ?io1, ?io2]"
  show lv: "level ?self \<noteq> DISABLED" by (simp add: INFO_def DISABLED_def)
  have calls: "\<forall>i<length (output_formats ?self).
          writekvs rt (output_formats ?self ! i) (?bufs ! i) (?ios ! i)
            = (Inr (), ?fmts ! i, ?bufs ! Suc i, ?ios ! Suc i)"
    by (auto simp: less_Suc_eq writekvs_def json_single_int human_single_int)
  have "Logger_dumpkvs rt ?self []
        = (Inr (), ?self\<lparr>name2val := [], output_formats := ?fmts\<rparr>,
           ?ios ! length (output_formats ?self))"
    using dumpkvs_fan_out[of ?self rt "[]" ?bufs ?ios ?fmts] lv calls by simp
  then show "Logger_dumpkvs rt ?self []
      = (Inr (), \<lparr>name2val = [], level = INFO, dir = None, output_formats = ?fmts\<rparr>, ?io2)"
    by simp
qed


lemma tensorboard_two_element_array:
  "writekvs rt (TensorBoardOutputFormat d n True)
      [(''frames'', NdArray (ObjList [ObjInt 1, ObjInt 2]))] io
     = (Inl TypeError, TensorBoardOutputFormat d n True,
        [(''frames'', NdArray (ObjList [ObjInt 1, ObjInt 2]))], io)"
  by (simp add: writekvs_def TensorBoardOutputFormat_writekvs_def float_val_def)

text \<open>
  Without the condition that every \<open>writekvs\<close> returns, the property fails. A Logger
  with the tensorboard format and the console format, and a two-element array in the
  buffer: \<open>float\<close> of the array raises \<open>TypeError\<close> in the tensorboard format, the
  console format is never called, and the buffer still holds the array.
\<close>

theorem dumpkvs_fan_out_counterexample:
  "\<forall>rt. level (\<lparr>name2val = [(''frames'', NdArray (ObjList [ObjInt 1, ObjInt 2]))],
           level = INFO, dir = Some ''/tmp/run'',
           output_formats = [TensorBoardOutputFormat ''/tmp/run/tb'' 1 True,
                             HumanOutputFormat Stdout]\<rparr> :: 'f Logger) \<noteq> DISABLED \<and>
     Logger_dumpkvs rt
        (\<lparr>name2val = [(''frames'', NdArray (ObjList [ObjInt 1, ObjInt 2]))],
           level = INFO, dir = Some ''/tmp/run'',
           output_formats = [TensorBoardOutputFormat ''/tmp/run/tb'' 1 True,
                             HumanOutputFormat Stdout]\<rparr> :: 'f Logger) []
      = (Inl TypeError,
         \<lparr>name2val = [(''frames'', NdArray (ObjList [ObjInt 1, ObjInt 2]))],
           level = INFO, dir = Some ''/tmp/run'',
           output_formats = [TensorBoardOutputFormat ''/tmp/run/tb'' 1 True,
                             HumanOutputFormat Stdout]\<rparr>,
         [])"
  by (simp add: Logger_dumpkvs_def INFO_def DISABLED_def tensorboard_two_element_array)

lemma writekvs_loop_append_fail:
  "writekvs_loop rt xs kvs io = (Inr (), xs', b, c) \<Longrightarrow>
   writekvs rt y b c = (Inl e, y', b', c') \<Longrightarrow>
   writekvs_loop rt (xs @ y # ys) kvs io = (Inl e, xs' @ y' # ys, b', c')"
  by (induction xs arbitrary: kvs io xs')
     (auto split: prod.splits sum.splits)


text \<open>
  C2. When the level is not \<open>DISABLED\<close> and the \<open>writekvs\<close> of the
  format at position \<open>i\<close> raises after the formats before it returned, \<open>dumpkvs\<close>
  raises the same error; the formats after position \<open>i\<close> are not called (the files
  are as the failing call left them, the later formats are untouched); and the buffer
  is not cleared: it is the dict as the failing call left it, with every key it had.
  Conversely every \<open>dumpkvs\<close> that raises stopped at such a format.
\<close>

theorem dumpkvs_sink_error:
  "(level self \<noteq> DISABLED \<longrightarrow> i < length (output_formats self) \<longrightarrow>
      writekvs_loop rt (take i (output_formats self)) (name2val self) io = (Inr (), fmts0, b, c) \<longrightarrow>
      writekvs rt (output_formats self ! i) b c = (Inl e, fmt', b', c') \<longrightarrow>
      Logger_dumpkvs rt self io
        = (Inl e,
           self\<lparr>name2val := b',
                output_formats := fmts0 @ fmt' # drop (Suc i) (output_formats self)\<rparr>,
           c') \<and>
      map fst b' = map fst (name2val self)) \<and>
   (level self \<noteq> DISABLED \<longrightarrow> Logger_dumpkvs rt self io = (Inl e, self', io') \<longrightarrow>
      map fst (name2val self') = map fst (name2val self) \<and>
      length (output_formats self') = length (output_formats self) \<and>
      (\<exists>i<length (output_formats self). \<exists>b c.
          writekvs_loop rt (take i (output_formats self)) (name2val self) io
            = (Inr (), take i (output_formats self'), b, c) \<and>
          writekvs rt (output_formats self ! i) b c
            = (Inl e, output_formats self' ! i, name2val self', io') \<and>
          drop (Suc i) (output_formats self') = drop (Suc i) (output_formats self)))"
proof (intro conjI impI)
  assume lv: "level self \<noteq> DISABLED" and i: "i < length (output_formats self)"
    and before: "writekvs_loop rt (take i (output_formats self)) (name2val self) io
                   = (Inr (), fmts0, b, c)"
    and fails: "writekvs rt (output_formats self ! i) b c = (Inl e, fmt', b', c')"
  have split: "take i (output_formats self) @ output_formats self ! i
                 # drop (Suc i) (output_formats self) = output_formats self"
    using i by (rule id_take_nth_drop[symmetric])
  have loop: "writekvs_loop rt (output_formats self) (name2val self) io
          = (Inl e, fmts0 @ fmt' # drop (Suc i) (output_formats self), b', c')"
    using writekvs_loop_append_fail[OF before fails, of "drop (Suc i) (output_formats self)"]
    by (simp only: split)
  then show "Logger_dumpkvs rt self io
        = (Inl e,
           self\<lparr>name2val := b',
                output_formats := fmts0 @ fmt' # drop (Suc i) (output_formats self)\<rparr>,
           c')"
    using lv by (simp add: Logger_dumpkvs_def)
  from loop show "map fst b' = map fst (name2val self)"
    by (rule writekvs_loop_keys)
next
  assume lv: "level self \<noteq> DISABLED"
    and ret: "Logger_dumpkvs rt self io = (Inl e, self', io')"
  obtain r fmts1 kvs1 io1 where
    loop: "writekvs_loop rt (output_formats self) (name2val self) io = (r, fmts1, kvs1, io1)"
    by (metis prod_cases4)
  with lv ret have r: "r = Inl e"
    and s: "self' = self\<lparr>name2val := kvs1, output_formats := fmts1\<rparr>" and io: "io' = io1"
    by (auto simp: Logger_dumpkvs_def split: sum.splits)
  from writekvs_loop_keys[OF loop] s
  show "map fst (name2val self') = map fst (name2val self)" by simp
  from writekvs_loop_Inl[OF loop[unfolded r]] s
  show "length (output_formats self') = length (output_formats self)" by simp
  from writekvs_loop_Inl[OF loop[unfolded r]] s io
  show "\<exists>i<length (output_formats self). \<exists>b c.
          writekvs_loop rt (take i (output_formats self)) (name2val self) io
            = (Inr (), take i (output_formats self'), b, c) \<and>
          writekvs rt (output_formats self ! i) b c
            = (Inl e, output_formats self' ! i, name2val self', io') \<and>
          drop (Suc i) (output_formats self') = drop (Suc i) (output_formats self)"
    by simp
qed

lemma json_two_element_array:
  "JSONOutputFormat_writekvs rt file [(''a'', NdArray (ObjList [ObjInt 1, ObjInt 2]))] io
     = (Inl TypeError, [(''a'', NdArray (ObjList [ObjInt 1, ObjInt 2]))], io)"
  by (simp add: JSONOutputFormat_writekvs_def sorted_items_def hasattr_dtype_def tolist_def
        float_obj_def)


text \<open>
  The buffer is not cleared when a format raises: a two-element array makes the JSON
  format raise \<open>TypeError\<close> (\<open>float\<close> of a list), the entry is still in the buffer
  after \<open>dumpkvs\<close>, and the console format after it is not written.
\<close>

theorem dumpkvs_sink_error_counterexample:
  "\<forall>rt. level (\<lparr>name2val = [(''a'', NdArray (ObjList [ObjInt 1, ObjInt 2]))], level = INFO,
           dir = None,
           output_formats = [JSONOutputFormat (File ''progress.json''), HumanOutputFormat Stdout]\<rparr>
          :: 'f Logger) \<noteq> DISABLED \<and>
     Logger_dumpkvs rt
        (\<lparr>name2val = [(''a'', NdArray (ObjList [ObjInt 1, ObjInt 2]))], level = INFO,
           dir = None,
           output_formats = [JSONOutputFormat (File ''progress.json''), HumanOutputFormat Stdout]\<rparr>
          :: 'f Logger) []
      = (Inl TypeError,
         \<lparr>name2val = [(''a'', NdArray (ObjList [ObjInt 1, ObjInt 2]))], level = INFO,
           dir = None,
           output_formats = [JSONOutputFormat (File ''progress.json''), HumanOutputFormat Stdout]\<rparr>,
         [])"
  by (simp add: Logger_dumpkvs_def INFO_def DISABLED_def writekvs_def json_two_element_array)


text \<open>
  A Logger whose second format is a bare \<open>OutputFormat\<close>: the JSON format before it is
  written, the console format after it is not, and the logged value stays.
\<close>

theorem dumpkvs_sink_error_witness:
  "\<forall>rt. level (\<lparr>name2val = [(''n'', PyInt 3)], level = WARN, dir = None,
           output_formats = [JSONOutputFormat (File ''progress.json''), OutputFormat,
                             HumanOutputFormat Stdout]\<rparr> :: 'f Logger) \<noteq> DISABLED \<and>
     Logger_dumpkvs rt
        (\<lparr>name2val = [(''n'', PyInt 3)], level = WARN, dir = None,
           output_formats = [JSONOutputFormat (File ''progress.json''), OutputFormat,
                             HumanOutputFormat Stdout]\<rparr> :: 'f Logger) []
      = (Inl NotImplementedError,
         \<lparr>name2val = [(''n'', PyInt 3)], level = WARN, dir = None,
           output_formats = [JSONOutputFormat (File ''progress.json''), OutputFormat,
                             HumanOutputFormat Stdout]\<rparr>,
         [Write (File ''progress.json'') (''{'' @ [CHR 0x22] @ ''n'' @ [CHR 0x22] @ '': 3}'' @ [CHR 0x0A]),
          Flush (File ''progress.json'')])"
proof (intro allI conjI)
  fix rt :: "'f runtime"
  let ?fmts = "[JSONOutputFormat (File ''progress.json''), OutputFormat, HumanOutputFormat Stdout]"
  let ?self = "\<lparr>name2val = [(''n'', PyInt 3)], level = WARN, dir = None,
                 output_formats = ?fmts\<rparr> :: 'f Logger"
  let ?io1 = "[Write (File ''progress.json'') (''{'' @ [CHR 0x22] @ ''n'' @ [CHR 0x22] @ '': 3}'' @ [CHR 0x0A]),
               Flush (File ''progress.json'')] :: 'f io_event list"
  show lv: "level ?self \<noteq> DISABLED" by (simp add: WARN_def DISABLED_def)
  have before: "writekvs_loop rt (take 1 (output_formats ?self)) (name2val ?self) []
                  = (Inr (), [JSONOutputFormat (File ''progress.json'')], [(''n'', PyInt 3)], ?io1)"
    by (simp add: writekvs_def json_single_int)
  have fails: "writekvs rt (output_formats ?self ! 1) [(''n'', PyInt 3)] ?io1
                 = (Inl NotImplementedError, OutputFormat, [(''n'', PyInt 3)], ?io1)"
    by (simp add: writekvs_def)
  have "Logger_dumpkvs rt ?self []
        = (Inl NotImplementedError,
           ?self\<lparr>name2val := [(''n'', PyInt 3)],
                  output_formats := [JSONOutputFormat (File ''progress.json'')] @ OutputFormat
                     # drop (Suc 1) (output_formats ?self)\<rparr>, ?io1)"
    using dumpkvs_sink_error[of ?self 1 rt "[]" "[JSONOutputFormat (File ''progress.json'')]"
            "[(''n'', PyInt 3)]" ?io1 NotImplementedError OutputFormat "[(''n'', PyInt 3)]" ?io1]
          lv before fails
    by simp
  then show "Logger_dumpkvs rt ?self []
      = (Inl NotImplementedError,
         \<lparr>name2val = [(''n'', PyInt 3)], level = WARN, dir = None, output_formats = ?fmts\<rparr>,
         ?io1)"
    by simp
qed

subsection \<open>\<open>logkv\<close> and the buffer\<close>

lemma getkvs_logkv: "getkvs (logkv key val s) = AList.update key val (getkvs s)"
  by (simp add: getkvs_def logkv_def current_def Logger_logkv_def)

lemma map_of_getkvs_logkv_calls:
  "map_of (getkvs (foldl (\<lambda>s' (k, v). logkv k v s') s calls))
     = map_of (getkvs s) ++ map_of (rev calls)"
proof (induction calls arbitrary: s)
  case Nil
  then show ?case by simp
next
  case (Cons c calls)
  obtain k v where c: "c = (k, v)" by (cases c)
  have "map_of (getkvs (foldl (\<lambda>s' (k, v). logkv k v s') (logkv k v s) calls))
          = map_of (getkvs (logkv k v s)) ++ map_of (rev calls)"
    by (rule Cons.IH)
  also have "map_of (getkvs (logkv k v s)) = (map_of (getkvs s))(k \<mapsto> v)"
    by (simp add: getkvs_logkv update_conv')
  finally show ?case
    using c by (simp add: map_add_def fun_eq_iff split: option.splits)
qed


lemma distinct_getkvs_logkv_calls:
  "distinct (map fst (getkvs s)) \<Longrightarrow>
   distinct (map fst (getkvs (foldl (\<lambda>s' (k, v). logkv k v s') s calls)))"
proof (induction calls arbitrary: s)
  case Nil
  then show ?case by simp
next
  case (Cons c calls)
  obtain k v where c: "c = (k, v)" by (cases c)
  have "distinct (map fst (getkvs (logkv k v s)))"
    using Cons.prems by (simp add: getkvs_logkv distinct_update)
  then show ?case using Cons.IH[of "logkv k v s"] c by simp
qed

lemma dumpkvs_runs_loop_on_buffer:
  "level (current s) \<noteq> DISABLED \<Longrightarrow>
   writekvs_loop rt (output_formats (current s)) (getkvs s) (iolog s) = (r, fmts', kvs', io') \<Longrightarrow>
   fst (dumpkvs rt s) = r \<and> iolog (snd (dumpkvs rt s)) = io'"
  by (cases r) (simp_all add: dumpkvs_def Logger_dumpkvs_def getkvs_def)

text \<open>
  C4. After any sequence of \<open>logkv\<close> calls, the buffer holds for a key the value of the
  last call with that key, whatever was logged for it before; a key that no call
  named is as it was before the calls (absent, when the calls started from the empty
  buffer a dump leaves); the keys stay distinct, one entry per key. This buffer is what
  the next \<open>dumpkvs\<close> hands to the loop over the output formats: the outcome of
  \<open>dumpkvs\<close> and what it writes are those of the loop run on it.
\<close>

theorem logkv_last_write_wins:
  "(calls = before @ (k, v) # after \<and> k \<notin> fst ` set after \<longrightarrow>
      map_of (getkvs (foldl (\<lambda>s' (k, v). logkv k v s') s calls)) k = Some v) \<and>
   (k \<notin> fst ` set calls \<longrightarrow>
      map_of (getkvs (foldl (\<lambda>s' (k, v). logkv k v s') s calls)) k = map_of (getkvs s) k) \<and>
   (distinct (map fst (getkvs s)) \<longrightarrow>
      distinct (map fst (getkvs (foldl (\<lambda>s' (k, v). logkv k v s') s calls)))) \<and>
   (level (current (foldl (\<lambda>s' (k, v). logkv k v s') s calls)) \<noteq> DISABLED \<longrightarrow>
      writekvs_loop rt (output_formats (current (foldl (\<lambda>s' (k, v). logkv k v s') s calls)))
         (getkvs (foldl (\<lambda>s' (k, v). logkv k v s') s calls))
         (iolog (foldl (\<lambda>s' (k, v). logkv k v s') s calls)) = (r, fmts', kvs', io') \<longrightarrow>
      fst (dumpkvs rt (foldl (\<lambda>s' (k, v). logkv k v s') s calls)) = r \<and>
      iolog (snd (dumpkvs rt (foldl (\<lambda>s' (k, v). logkv k v s') s calls))) = io')"
proof (intro conjI impI)
  assume "calls = before @ (k, v) # after \<and> k \<notin> fst ` set after"
  then have c: "calls = before @ (k, v) # after" and n: "k \<notin> fst ` set after" by simp_all
  have "map_of (rev after) k = None"
    using n by (simp add: map_of_eq_None_iff)
  moreover have "map_of (getkvs (foldl (\<lambda>s' (k, v). logkv k v s') s calls)) k
          = (map_of (getkvs s) ++ map_of (rev calls)) k"
    by (simp only: map_of_getkvs_logkv_calls)
  ultimately show "map_of (getkvs (foldl (\<lambda>s' (k, v). logkv k v s') s calls)) k = Some v"
    by (simp add: c map_add_def)
next
  assume "k \<notin> fst ` set calls"
  then have "map_of (rev calls) k = None"
    by (simp add: map_of_eq_None_iff)
  moreover have "map_of (getkvs (foldl (\<lambda>s' (k, v). logkv k v s') s calls)) k
          = (map_of (getkvs s) ++ map_of (rev calls)) k"
    by (simp only: map_of_getkvs_logkv_calls)
  ultimately show "map_of (getkvs (foldl (\<lambda>s' (k, v). logkv k v s') s calls)) k = map_of (getkvs s) k"
    by (simp add: map_add_def)
next
  assume "distinct (map fst (getkvs s))"
  then show "distinct (map fst (getkvs (foldl (\<lambda>s' (k, v). logkv k v s') s calls)))"
    by (rule distinct_getkvs_logkv_calls)
next
  let ?s = "foldl (\<lambda>s' (k, v). logkv k v s') s calls"
  assume lv: "level (current ?s) \<noteq> DISABLED"
    and loop: "writekvs_loop rt (output_formats (current ?s)) (getkvs ?s) (iolog ?s)
                 = (r, fmts', kvs', io')"
  from dumpkvs_runs_loop_on_buffer[OF lv loop]
  show "fst (dumpkvs rt ?s) = r" and "iolog (snd (dumpkvs rt ?s)) = io'" by simp_all
qed



lemma human_two_keys:
  "HumanOutputFormat_writekvs rt file [(''a'', PyInt 5), (''b'', PyStr ''x'')] io
     = (Inr (), io @ [Write file (''---------'' @ [CHR 0x0A] @ ''| a | 5 |'' @ [CHR 0x0A] @
                                   ''| b | x |'' @ [CHR 0x0A] @ ''---------'' @ [CHR 0x0A]),
                      Flush file])"
  by (simp add: HumanOutputFormat_writekvs_def human_key2str_def sorted_items_def valstr_def
        isinstance_float_def py_str_def str_int_def HumanOutputFormat_truncate_def human_row_def
        Let_def eval_nat_numeral)

text \<open>
  Three calls on the default logger, two of them for the key \<open>a\<close>: the dump prints
  the later value of \<open>a\<close>.
\<close>

theorem logkv_last_write_wins_witness:
  "\<forall>rt.
     map_of (getkvs (foldl (\<lambda>s' (k, v). logkv k v s') (module_state :: 'f state)
                [(''a'', PyInt 3), (''a'', PyInt 5), (''b'', PyStr ''x'')])) ''a''
       = Some (PyInt 5) \<and>
     map_of (getkvs (foldl (\<lambda>s' (k, v). logkv k v s') (module_state :: 'f state)
                [(''a'', PyInt 3), (''a'', PyInt 5), (''b'', PyStr ''x'')])) ''c'' = None \<and>
     distinct (map fst (getkvs (foldl (\<lambda>s' (k, v). logkv k v s') (module_state :: 'f state)
                [(''a'', PyInt 3), (''a'', PyInt 5), (''b'', PyStr ''x'')]))) \<and>
     fst (dumpkvs rt (foldl (\<lambda>s' (k, v). logkv k v s') (module_state :: 'f state)
                [(''a'', PyInt 3), (''a'', PyInt 5), (''b'', PyStr ''x'')])) = Inr () \<and>
     iolog (snd (dumpkvs rt (foldl (\<lambda>s' (k, v). logkv k v s') (module_state :: 'f state)
                [(''a'', PyInt 3), (''a'', PyInt 5), (''b'', PyStr ''x'')])))
       = [Write Stdout (''---------'' @ [CHR 0x0A] @ ''| a | 5 |'' @ [CHR 0x0A] @
                        ''| b | x |'' @ [CHR 0x0A] @ ''---------'' @ [CHR 0x0A]),
          Flush Stdout]"
proof (intro allI)
  fix rt :: "'f runtime"
  let ?calls = "[(''a'', PyInt 3), (''a'', PyInt 5), (''b'', PyStr ''x'')] :: 'f kvs"
  let ?s = "foldl (\<lambda>s' (k, v). logkv k v s') (module_state :: 'f state) ?calls"
  let ?out = "[Write Stdout (''---------'' @ [CHR 0x0A] @ ''| a | 5 |'' @ [CHR 0x0A] @
                        ''| b | x |'' @ [CHR 0x0A] @ ''---------'' @ [CHR 0x0A]),
          Flush Stdout] :: 'f io_event list"
  have buf: "getkvs ?s = [(''a'', PyInt 5), (''b'', PyStr ''x'')]"
    by (simp add: getkvs_logkv) (simp add: getkvs_def current_def module_state_def Logger_init_def)
  have cur: "level (current ?s) = INFO" "output_formats (current ?s) = [HumanOutputFormat Stdout]"
            "iolog ?s = []"
    by (simp_all add: logkv_def current_def module_state_def Logger_init_def Logger_logkv_def)
  have lv: "level (current ?s) \<noteq> DISABLED" using cur(1) by (simp add: INFO_def DISABLED_def)
  have loop: "writekvs_loop rt (output_formats (current ?s)) (getkvs ?s) (iolog ?s)
                = (Inr (), [HumanOutputFormat Stdout], [(''a'', PyInt 5), (''b'', PyStr ''x'')], ?out)"
    using cur buf by (simp add: writekvs_def human_two_keys)
  have empty: "getkvs (module_state :: 'f state) = []"
    by (simp add: getkvs_def current_def module_state_def Logger_init_def)
  note lww = logkv_last_write_wins[where s = "module_state :: 'f state" and calls = ?calls
               and rt = rt and r = "Inr ()" and fmts' = "[HumanOutputFormat Stdout]"
               and kvs' = "[(''a'', PyInt 5), (''b'', PyStr ''x'')]" and io' = ?out]
  have 1: "map_of (getkvs ?s) ''a'' = Some (PyInt 5)"
    using lww[where k = "''a''" and v = "PyInt 5" and before = "[(''a'', PyInt 3)]"
                and after = "[(''b'', PyStr ''x'')]"]
    by simp
  have 2: "map_of (getkvs ?s) ''c'' = None"
    using lww[where k = "''c''"] empty by simp
  have 3: "distinct (map fst (getkvs ?s))"
    using lww empty by simp
  have 4: "fst (dumpkvs rt ?s) = Inr () \<and> iolog (snd (dumpkvs rt ?s)) = ?out"
    using lww lv loop by blast
  from 1 2 3 4 show "map_of (getkvs ?s) ''a'' = Some (PyInt 5) \<and>
     map_of (getkvs ?s) ''c'' = None \<and> distinct (map fst (getkvs ?s)) \<and>
     fst (dumpkvs rt ?s) = Inr () \<and> iolog (snd (dumpkvs rt ?s)) = ?out"
    by blast
qed

subsection \<open>\<open>HumanOutputFormat.writekvs\<close> on an empty dict\<close>

text \<open>
  C5. \<open>HumanOutputFormat.writekvs\<close> does not get through an empty dict: \<open>key2str\<close> is
  empty, \<open>max(map(len, key2str.keys()))\<close> raises \<open>ValueError\<close>, and nothing is written.
  The same through the dispatch, and through \<open>dumpkvs\<close> on the default logger before
  anything is logged.
\<close>

theorem human_writekvs_empty_raises:
  "HumanOutputFormat_writekvs rt file [] io
     = (Inl (ValueError ''max() arg is an empty sequence''), io) \<and>
   writekvs rt (HumanOutputFormat file) [] io
     = (Inl (ValueError ''max() arg is an empty sequence''), HumanOutputFormat file, [], io) \<and>
   fst (dumpkvs rt module_state) = Inl (ValueError ''max() arg is an empty sequence'')"
  by (simp add: HumanOutputFormat_writekvs_def human_key2str_def sorted_items_def writekvs_def
        dumpkvs_def Logger_dumpkvs_def current_def module_state_def Logger_init_def
        INFO_def DISABLED_def)

subsection \<open>Read-back through \<open>getkvs\<close>\<close>

text \<open>
  C8. \<open>logkv\<close> stores the value it is given, whatever its type: \<open>getkvs\<close> right after
  it is the old buffer with \<open>key\<close> assigned \<open>val\<close> itself, so looking the key up gives
  back \<open>val\<close> (a numpy value is still the numpy value, no float has been made of it),
  also after a later \<open>logkv\<close> for another key; and \<open>logkv\<close> writes nothing.
\<close>

theorem logkv_getkvs_roundtrip:
  "getkvs (logkv key val s) = AList.update key val (getkvs s) \<and>
   map_of (getkvs (logkv key val s)) key = Some val \<and>
   (key' \<noteq> key \<longrightarrow> map_of (getkvs (logkv key' val' (logkv key val s))) key = Some val) \<and>
   iolog (logkv key val s) = iolog s"
proof -
  have "iolog (logkv key val s) = iolog s" by (simp add: logkv_def)
  then show ?thesis by (simp add: getkvs_logkv update_conv')
qed

text \<open>A numpy scalar logged on the default logger is read back as the numpy scalar.\<close>

theorem logkv_getkvs_roundtrip_witness:
  "getkvs (logkv ''loss'' (NdArray (ObjInt 3)) (module_state :: 'f state))
     = [(''loss'', NdArray (ObjInt 3))] \<and>
   map_of (getkvs (logkv ''lr'' (PyStr ''1e-4'')
                     (logkv ''loss'' (NdArray (ObjInt 3)) (module_state :: 'f state)))) ''loss''
     = Some (NdArray (ObjInt 3)) \<and>
   ''lr'' \<noteq> ''loss''"
proof -
  have e: "getkvs (module_state :: 'f state) = []"
    by (simp add: getkvs_def current_def module_state_def Logger_init_def)
  have n: "''lr'' \<noteq> ''loss''" by simp
  from logkv_getkvs_roundtrip[of "''loss''" "NdArray (ObjInt 3)" "module_state :: 'f state"
         "''lr''" "PyStr ''1e-4''"]
  show ?thesis using e n by simp
qed

subsection \<open>\<open>configure\<close> and \<open>reset\<close>\<close>

lemma make_output_format_valid:
  "format \<in> {''stdout'', ''log'', ''json'', ''tensorboard''} \<Longrightarrow>
   \<exists>fmt io'. make_output_format format ev_dir io = (Inr fmt, io')"
  by (auto simp: make_output_format_def Let_def TensorBoardOutputFormat_init_def)

lemma make_output_format_unknown:
  "format \<notin> {''stdout'', ''log'', ''json'', ''tensorboard''} \<Longrightarrow>
   make_output_format format ev_dir io
     = (Inl (ValueError (''Unknown format specified: '' @ format)), io @ [Makedirs ev_dir])"
  by (simp add: make_output_format_def Let_def)

lemma make_output_formats_valid:
  "set fs \<subseteq> {''stdout'', ''log'', ''json'', ''tensorboard''} \<Longrightarrow>
   \<exists>fmts io'. make_output_formats fs ev_dir io = (Inr fmts, io')"
proof (induction fs arbitrary: io)
  case Nil
  then show ?case by simp
next
  case (Cons f fs)
  then have "f \<in> {''stdout'', ''log'', ''json'', ''tensorboard''}" by simp
  then obtain fmt io1 where 1: "make_output_format f ev_dir io = (Inr fmt, io1)"
    using make_output_format_valid by blast
  from Cons obtain fmts io2 where 2: "make_output_formats fs ev_dir io1 = (Inr fmts, io2)"
    by fastforce
  from 1 2 show ?case by simp
qed

lemma make_output_formats_unknown:
  "\<not> set fs \<subseteq> {''stdout'', ''log'', ''json'', ''tensorboard''} \<Longrightarrow>
   \<exists>f io'. f \<in> set fs \<and> f \<notin> {''stdout'', ''log'', ''json'', ''tensorboard''} \<and>
     make_output_formats fs ev_dir io
       = (Inl (ValueError (''Unknown format specified: '' @ f)), io')"
proof (induction fs arbitrary: io)
  case Nil
  then show ?case by simp
next
  case (Cons f fs)
  show ?case
  proof (cases "f \<in> {''stdout'', ''log'', ''json'', ''tensorboard''}")
    case False
    then have "make_output_formats (f # fs) ev_dir io
       = (Inl (ValueError (''Unknown format specified: '' @ f)), io @ [Makedirs ev_dir])"
      by (simp add: make_output_format_unknown del: insert_iff)
    with False show ?thesis by (intro exI[of _ f]) simp
  next
    case True
    then obtain fmt io1 where 1: "make_output_format f ev_dir io = (Inr fmt, io1)"
      using make_output_format_valid by blast
    from True Cons.prems have "\<not> set fs \<subseteq> {''stdout'', ''log'', ''json'', ''tensorboard''}"
      by auto
    from Cons.IH[OF this, of io1] obtain g io2 where
      2: "g \<in> set fs" "g \<notin> {''stdout'', ''log'', ''json'', ''tensorboard''}"
         "make_output_formats fs ev_dir io1
            = (Inl (ValueError (''Unknown format specified: '' @ g)), io2)"
      by blast
    from 1 2 show ?thesis by (intro exI[of _ g]) simp
  qed
qed

lemma configure_not_default:
  "CURRENT s \<noteq> DEFAULT s \<Longrightarrow>
   configure e d format_strs s
     = (Inl (AssertionError
              (''Only call logger.configure() when it's in the default state. '' @
               ''Try calling logger.reset() first.'')), s)"
  by (simp add: configure_def)

lemma configure_Inr:
  "configure e d format_strs s = (Inr (), s') \<Longrightarrow>
   CURRENT s = DEFAULT s \<and>
   (\<exists>d2 fmts io'.
      s' = s\<lparr>heap := (heap s)(fresh s := Logger_init (Some d2) fmts),
             fresh := Suc (fresh s), CURRENT := fresh s, iolog := io'\<rparr>)"
  by (auto simp: configure_def Let_def log_def split: if_splits prod.splits sum.splits)

lemma configure_default_valid:
  "CURRENT s = DEFAULT s \<Longrightarrow>
   set (case format_strs of None \<Rightarrow> LOG_OUTPUT_FORMATS | Some x \<Rightarrow> x)
     \<subseteq> {''stdout'', ''log'', ''json'', ''tensorboard''} \<Longrightarrow>
   \<exists>s'. configure e d format_strs s = (Inr (), s')"
proof -
  assume c: "CURRENT s = DEFAULT s"
    and v: "set (case format_strs of None \<Rightarrow> LOG_OUTPUT_FORMATS | Some x \<Rightarrow> x)
              \<subseteq> {''stdout'', ''log'', ''json'', ''tensorboard''}"
  let ?d2 = "case (case d of None \<Rightarrow> OPENAI_LOGDIR e | Some x \<Rightarrow> Some x) of
               None \<Rightarrow> tempdir_now e | Some x \<Rightarrow> x"
  from make_output_formats_valid[OF v, of ?d2 "iolog s"] obtain fmts io' where
    "make_output_formats (case format_strs of None \<Rightarrow> LOG_OUTPUT_FORMATS | Some x \<Rightarrow> x)
       ?d2 (iolog s) = (Inr fmts, io')"
    by blast
  with c show ?thesis by (simp add: configure_def Let_def)
qed

lemma configure_Inl_frame:
  "configure e d format_strs s = (Inl err, s') \<Longrightarrow>
   CURRENT s' = CURRENT s \<and> DEFAULT s' = DEFAULT s \<and> heap s' = heap s \<and> fresh s' = fresh s"
  by (auto simp: configure_def Let_def split: if_splits prod.splits sum.splits)

lemma reset_frame:
  "CURRENT (reset s) = DEFAULT s \<and> DEFAULT (reset s) = DEFAULT s \<and> heap (reset s) = heap s \<and>
   fresh (reset s) = fresh s"
  by (simp add: reset_def log_def)


lemma make_output_formats_Inl:
  "make_output_formats fs ev_dir io = (Inl err, io') \<Longrightarrow>
   \<exists>f\<in>set fs. err = ValueError (''Unknown format specified: '' @ f)"
proof (induction fs arbitrary: io)
  case Nil
  then show ?case by simp
next
  case (Cons f fs)
  show ?case
  proof (cases "f \<in> {''stdout'', ''log'', ''json'', ''tensorboard''}")
    case False
    with Cons.prems show ?thesis
      by (simp add: make_output_format_unknown del: insert_iff)
  next
    case True
    then obtain fmt io1 where 1: "make_output_format f ev_dir io = (Inr fmt, io1)"
      using make_output_format_valid by blast
    with Cons.prems have "make_output_formats fs ev_dir io1 = (Inl err, io')"
      by (auto split: prod.splits sum.splits)
    from Cons.IH[OF this] show ?thesis by simp
  qed
qed

lemma configure_default_no_assertion:
  "CURRENT s = DEFAULT s \<Longrightarrow> fst (configure e d format_strs s) \<noteq> Inl (AssertionError msg)"
  by (auto simp: configure_def Let_def split: prod.splits sum.splits
           dest!: make_output_formats_Inl)

lemma wf_module_state: "wf_state module_state"
  by (simp add: wf_state_def module_state_def)

lemma wf_state_preserved:
  "wf_state s \<Longrightarrow>
   wf_state (logkv key val s) \<and> wf_state (snd (dumpkvs rt s)) \<and> wf_state (log args lvl s) \<and>
   wf_state (set_level lvl s) \<and> wf_state (reset s) \<and> wf_state (snd (configure e d fs s))"
  by (auto simp: wf_state_def logkv_def dumpkvs_def log_def set_level_def reset_def configure_def
        Let_def split: prod.splits sum.splits)

text \<open>
  C3. \<open>configure\<close> raises its \<open>AssertionError\<close>, and changes nothing, whenever
  \<open>Logger.CURRENT\<close> is not the object \<open>Logger.DEFAULT\<close>; when it is, \<open>configure\<close> never
  raises an \<open>AssertionError\<close>. A \<open>configure\<close> that returned has installed a new object
  as current, so the next \<open>configure\<close> raises the \<open>AssertionError\<close>. \<open>reset\<close> makes the
  default logger current again, and a \<open>configure\<close> after it returns (for format names
  the factory knows, which the default list is). The test is the identity of the two
  objects: what has been logged to the default logger, or its level, plays no part.
  \<open>wf_state\<close> holds at import and every function of the module keeps it.
\<close>

theorem configure_requires_default:
  "(CURRENT s \<noteq> DEFAULT s \<longrightarrow>
      configure e d fs s
        = (Inl (AssertionError
                 (''Only call logger.configure() when it's in the default state. '' @
                  ''Try calling logger.reset() first.'')), s)) \<and>
   (CURRENT s = DEFAULT s \<longrightarrow> (\<forall>msg. fst (configure e d fs s) \<noteq> Inl (AssertionError msg))) \<and>
   (wf_state s \<longrightarrow> configure e d fs s = (Inr (), s1) \<longrightarrow>
      CURRENT s1 \<noteq> DEFAULT s1 \<and>
      configure e2 d2 fs2 s1
        = (Inl (AssertionError
                 (''Only call logger.configure() when it's in the default state. '' @
                  ''Try calling logger.reset() first.'')), s1)) \<and>
   (CURRENT (reset s3) = DEFAULT (reset s3) \<and> DEFAULT (reset s3) = DEFAULT s3 \<and>
    heap (reset s3) = heap s3) \<and>
   (set (case fs3 of None \<Rightarrow> LOG_OUTPUT_FORMATS | Some x \<Rightarrow> x)
      \<subseteq> {''stdout'', ''log'', ''json'', ''tensorboard''} \<longrightarrow>
      (\<exists>s4. configure e3 d3 fs3 (reset s3) = (Inr (), s4)))"
proof (intro conjI impI allI)
  assume "CURRENT s \<noteq> DEFAULT s"
  then show "configure e d fs s
        = (Inl (AssertionError
                 (''Only call logger.configure() when it's in the default state. '' @
                  ''Try calling logger.reset() first.'')), s)"
    by (rule configure_not_default)
next
  fix msg
  assume "CURRENT s = DEFAULT s"
  then show "fst (configure e d fs s) \<noteq> Inl (AssertionError msg)"
    by (rule configure_default_no_assertion)
next
  assume wf: "wf_state s" and ok: "configure e d fs s = (Inr (), s1)"
  from configure_Inr[OF ok] wf show ne: "CURRENT s1 \<noteq> DEFAULT s1"
    by (auto simp: wf_state_def)
  then show "configure e2 d2 fs2 s1
        = (Inl (AssertionError
                 (''Only call logger.configure() when it's in the default state. '' @
                  ''Try calling logger.reset() first.'')), s1)"
    by (rule configure_not_default)
next
  show "CURRENT (reset s3) = DEFAULT (reset s3)" "DEFAULT (reset s3) = DEFAULT s3"
       "heap (reset s3) = heap s3"
    by (simp_all add: reset_frame)
next
  assume "set (case fs3 of None \<Rightarrow> LOG_OUTPUT_FORMATS | Some x \<Rightarrow> x)
            \<subseteq> {''stdout'', ''log'', ''json'', ''tensorboard''}"
  moreover have "CURRENT (reset s3) = DEFAULT (reset s3)" by (simp add: reset_frame)
  ultimately show "\<exists>s4. configure e3 d3 fs3 (reset s3) = (Inr (), s4)"
    by (rule configure_default_valid[rotated])
qed


lemma configure_module_state_default:
  "fst (configure \<lparr>OPENAI_LOGDIR = None, tempdir_now = ''/tmp/openai-run''\<rparr> None None
          (module_state :: 'f state)) = Inr ()"
  by (simp add: configure_def module_state_def LOG_OUTPUT_FORMATS_def make_output_format_def
        Let_def)

text \<open>
  From the state at import: \<open>configure()\<close> returns, \<open>configure()\<close> again raises,
  and after \<open>reset()\<close> a \<open>configure\<close> returns.
\<close>

theorem configure_requires_default_witness:
  "wf_state (module_state :: 'f state) \<and>
   fst (configure \<lparr>OPENAI_LOGDIR = None, tempdir_now = ''/tmp/openai-run''\<rparr> None None
          (module_state :: 'f state)) = Inr () \<and>
   fst (configure \<lparr>OPENAI_LOGDIR = None, tempdir_now = ''/tmp/openai-run''\<rparr> None None
          (snd (configure \<lparr>OPENAI_LOGDIR = None, tempdir_now = ''/tmp/openai-run''\<rparr> None None
                  (module_state :: 'f state))))
     = Inl (AssertionError
             (''Only call logger.configure() when it's in the default state. '' @
              ''Try calling logger.reset() first.'')) \<and>
   (\<exists>s4. configure \<lparr>OPENAI_LOGDIR = None, tempdir_now = ''/tmp/openai-run''\<rparr>
            (Some ''/tmp/second'') (Some [''json'', ''stdout''])
            (reset (snd (configure \<lparr>OPENAI_LOGDIR = None, tempdir_now = ''/tmp/openai-run''\<rparr>
                           None None (module_state :: 'f state))))
          = (Inr (), s4))"
proof -
  let ?e = "\<lparr>OPENAI_LOGDIR = None, tempdir_now = ''/tmp/openai-run''\<rparr>"
  let ?s1 = "snd (configure ?e None None (module_state :: 'f state))"
  have first: "configure ?e None None (module_state :: 'f state) = (Inr (), ?s1)"
    using configure_module_state_default[where 'f = 'f] by (simp add: prod_eq_iff)
  have valid: "set (case Some [''json'', ''stdout''] of None \<Rightarrow> LOG_OUTPUT_FORMATS | Some x \<Rightarrow> x)
                 \<subseteq> {''stdout'', ''log'', ''json'', ''tensorboard''}"
    by simp
  note c = configure_requires_default[where s = "module_state :: 'f state" and e = ?e
             and d = None and fs = None and ?s1.0 = ?s1 and ?e2.0 = ?e and ?d2.0 = None
             and ?fs2.0 = None and ?s3.0 = ?s1 and ?e3.0 = ?e and ?d3.0 = "Some ''/tmp/second''"
             and ?fs3.0 = "Some [''json'', ''stdout'']"]
  from c wf_module_state first
  have "configure ?e None None ?s1
        = (Inl (AssertionError
                 (''Only call logger.configure() when it's in the default state. '' @
                  ''Try calling logger.reset() first.'')), ?s1)"
    by blast
  moreover from c valid
  have "\<exists>s4. configure ?e (Some ''/tmp/second'') (Some [''json'', ''stdout'']) (reset ?s1)
               = (Inr (), s4)"
    by blast
  ultimately show ?thesis
    using wf_module_state configure_module_state_default[where 'f = 'f] by simp
qed


text \<open>
  C6. \<open>make_output_format\<close> raises \<open>ValueError('Unknown format specified: ...')\<close> for
  every name other than \<open>stdout\<close>, \<open>log\<close>, \<open>json\<close> and \<open>tensorboard\<close>. A \<open>configure\<close>
  whose format list has such a name raises, and \<open>Logger.CURRENT\<close>, \<open>Logger.DEFAULT\<close>
  and every Logger are what they were: no Logger is built from the formats made before
  the unknown name. Called in the default state, the error is the \<open>ValueError\<close> of an
  unknown name of the list.
\<close>

theorem unknown_format_fails:
  "(format \<notin> {''stdout'', ''log'', ''json'', ''tensorboard''} \<longrightarrow>
      make_output_format format ev_dir io
        = (Inl (ValueError (''Unknown format specified: '' @ format)), io @ [Makedirs ev_dir])) \<and>
   (\<not> set fs \<subseteq> {''stdout'', ''log'', ''json'', ''tensorboard''} \<longrightarrow>
      (\<exists>err s'. configure e d (Some fs) s = (Inl err, s') \<and>
         CURRENT s' = CURRENT s \<and> DEFAULT s' = DEFAULT s \<and> heap s' = heap s \<and>
         fresh s' = fresh s \<and>
         (CURRENT s = DEFAULT s \<longrightarrow>
            (\<exists>f\<in>set fs. f \<notin> {''stdout'', ''log'', ''json'', ''tensorboard''} \<and>
               err = ValueError (''Unknown format specified: '' @ f)))))"
proof (intro conjI impI)
  assume "format \<notin> {''stdout'', ''log'', ''json'', ''tensorboard''}"
  then show "make_output_format format ev_dir io
        = (Inl (ValueError (''Unknown format specified: '' @ format)), io @ [Makedirs ev_dir])"
    by (rule make_output_format_unknown)
next
  assume bad: "\<not> set fs \<subseteq> {''stdout'', ''log'', ''json'', ''tensorboard''}"
  show "\<exists>err s'. configure e d (Some fs) s = (Inl err, s') \<and>
         CURRENT s' = CURRENT s \<and> DEFAULT s' = DEFAULT s \<and> heap s' = heap s \<and>
         fresh s' = fresh s \<and>
         (CURRENT s = DEFAULT s \<longrightarrow>
            (\<exists>f\<in>set fs. f \<notin> {''stdout'', ''log'', ''json'', ''tensorboard''} \<and>
               err = ValueError (''Unknown format specified: '' @ f)))"
  proof (cases "CURRENT s = DEFAULT s")
    case False
    then show ?thesis by (simp add: configure_not_default)
  next
    case True
    let ?d2 = "case (case d of None \<Rightarrow> OPENAI_LOGDIR e | Some x \<Rightarrow> Some x) of
                 None \<Rightarrow> tempdir_now e | Some x \<Rightarrow> x"
    from make_output_formats_unknown[OF bad, of ?d2 "iolog s"] obtain f io' where
      f: "f \<in> set fs" "f \<notin> {''stdout'', ''log'', ''json'', ''tensorboard''}"
         "make_output_formats fs ?d2 (iolog s)
            = (Inl (ValueError (''Unknown format specified: '' @ f)), io')"
      by blast
    then have "configure e d (Some fs) s
                 = (Inl (ValueError (''Unknown format specified: '' @ f)), s\<lparr>iolog := io'\<rparr>)"
      using True by (simp add: configure_def Let_def)
    with f(1,2) show ?thesis by auto
  qed
qed

text \<open>The format list \<open>['stdout', 'csv']\<close> at import: \<open>ValueError\<close>, the default logger stays current.\<close>

theorem unknown_format_fails_witness:
  "''csv'' \<notin> {''stdout'', ''log'', ''json'', ''tensorboard''} \<and>
   make_output_format ''csv'' ''/tmp/run'' ([] :: 'f io_event list)
     = (Inl (ValueError ''Unknown format specified: csv''), [Makedirs ''/tmp/run'']) \<and>
   fst (configure \<lparr>OPENAI_LOGDIR = None, tempdir_now = ''/tmp/openai-run''\<rparr>
          (Some ''/tmp/run'') (Some [''stdout'', ''csv'']) (module_state :: 'f state))
     = Inl (ValueError ''Unknown format specified: csv'') \<and>
   CURRENT (snd (configure \<lparr>OPENAI_LOGDIR = None, tempdir_now = ''/tmp/openai-run''\<rparr>
          (Some ''/tmp/run'') (Some [''stdout'', ''csv'']) (module_state :: 'f state)))
     = DEFAULT (module_state :: 'f state)"
proof -
  let ?e = "\<lparr>OPENAI_LOGDIR = None, tempdir_now = ''/tmp/openai-run''\<rparr>"
  let ?c = "configure ?e (Some ''/tmp/run'') (Some [''stdout'', ''csv'']) (module_state :: 'f state)"
  have n: "''csv'' \<notin> {''stdout'', ''log'', ''json'', ''tensorboard''}" by simp
  have b: "\<not> set [''stdout'', ''csv''] \<subseteq> {''stdout'', ''log'', ''json'', ''tensorboard''}" by simp
  note u = unknown_format_fails[where format = "''csv''" and ev_dir = "''/tmp/run''"
             and io = "[] :: 'f io_event list" and fs = "[''stdout'', ''csv'']" and e = ?e
             and d = "Some ''/tmp/run''" and s = "module_state :: 'f state"]
  from u n have 1: "make_output_format ''csv'' ''/tmp/run'' ([] :: 'f io_event list)
     = (Inl (ValueError ''Unknown format specified: csv''), [Makedirs ''/tmp/run''])"
    by simp
  from u b obtain err s' where c: "?c = (Inl err, s')"
    "CURRENT s' = CURRENT (module_state :: 'f state)"
    "CURRENT (module_state :: 'f state) = DEFAULT (module_state :: 'f state) \<longrightarrow>
       (\<exists>f\<in>set [''stdout'', ''csv'']. f \<notin> {''stdout'', ''log'', ''json'', ''tensorboard''} \<and>
               err = ValueError (''Unknown format specified: '' @ f))"
    by blast
  have d: "CURRENT (module_state :: 'f state) = DEFAULT (module_state :: 'f state)"
    by (simp add: module_state_def)
  with c(3) have "err = ValueError ''Unknown format specified: csv''" by auto
  with c(1,2) d n 1 show ?thesis by simp
qed


subsection \<open>The level of a new Logger\<close>

lemma current_set_level: "current (set_level lvl s) = Logger_set_level lvl (current s)"
  by (simp add: current_def set_level_def)

lemma Logger_log_at_INFO:
  "level self = INFO \<Longrightarrow>
   Logger_log self args INFO io = Logger_do_log self args io \<and>
   Logger_log self args WARN io = Logger_do_log self args io \<and>
   Logger_log self args ERROR io = Logger_do_log self args io \<and>
   Logger_log self args DEBUG io = io \<and>
   Logger_log (Logger_set_level DEBUG self) args DEBUG io = Logger_do_log self args io"
  by (simp add: Logger_log_def Logger_do_log_def Logger_set_level_def
        DEBUG_def INFO_def WARN_def ERROR_def)

lemma log_at_INFO:
  "level (current s) = INFO \<Longrightarrow>
   debug args s = s \<and>
   info args s = s\<lparr>iolog := Logger_do_log (current s) args (iolog s)\<rparr> \<and>
   warn args s = s\<lparr>iolog := Logger_do_log (current s) args (iolog s)\<rparr> \<and>
   error args s = s\<lparr>iolog := Logger_do_log (current s) args (iolog s)\<rparr> \<and>
   debug args (set_level DEBUG s)
     = (set_level DEBUG s)\<lparr>iolog := Logger_do_log (current s) args (iolog s)\<rparr>"
proof -
  assume l: "level (current s) = INFO"
  have i: "iolog (set_level DEBUG s) = iolog s" by (simp add: set_level_def)
  from Logger_log_at_INFO[OF l] show ?thesis
    by (simp add: debug_def info_def warn_def error_def log_def current_set_level i)
qed

text \<open>
  C10. \<open>Logger.__init__\<close> sets the level to \<open>INFO\<close> and the buffer to the empty dict.
  A Logger at level \<open>INFO\<close> forwards \<open>log\<close> at \<open>INFO\<close>, \<open>WARN\<close> and \<open>ERROR\<close> to the
  \<open>writeseq\<close> of its formats and does nothing at \<open>DEBUG\<close>, until \<open>set_level(DEBUG)\<close>;
  the same through the free functions. The default logger is at level \<open>INFO\<close>, and so
  is the logger a \<open>configure\<close> that returned has made current.
\<close>

theorem new_logger_level_info:
  "level (Logger_init d fmts :: 'f Logger) = INFO \<and>
   name2val (Logger_init d fmts :: 'f Logger) = [] \<and>
   (level (self :: 'f Logger) = INFO \<longrightarrow>
      Logger_log self args INFO io = Logger_do_log self args io \<and>
      Logger_log self args WARN io = Logger_do_log self args io \<and>
      Logger_log self args ERROR io = Logger_do_log self args io \<and>
      Logger_log self args DEBUG io = io \<and>
      Logger_log (Logger_set_level DEBUG self) args DEBUG io = Logger_do_log self args io) \<and>
   (level (current s) = INFO \<longrightarrow>
      debug args s = s \<and>
      info args s = s\<lparr>iolog := Logger_do_log (current s) args (iolog s)\<rparr> \<and>
      warn args s = s\<lparr>iolog := Logger_do_log (current s) args (iolog s)\<rparr> \<and>
      error args s = s\<lparr>iolog := Logger_do_log (current s) args (iolog s)\<rparr> \<and>
      debug args (set_level DEBUG s)
        = (set_level DEBUG s)\<lparr>iolog := Logger_do_log (current s) args (iolog s)\<rparr>) \<and>
   level (current (module_state :: 'f state)) = INFO \<and>
   name2val (current (module_state :: 'f state)) = [] \<and>
   (configure e d' fs (s :: 'f state) = (Inr (), s') \<longrightarrow>
      level (current s') = INFO \<and> name2val (current s') = [])"
proof (intro conjI impI)
  show "level (Logger_init d fmts :: 'f Logger) = INFO"
    "name2val (Logger_init d fmts :: 'f Logger) = []"
    by (simp_all add: Logger_init_def)
  show "level (current (module_state :: 'f state)) = INFO"
    "name2val (current (module_state :: 'f state)) = []"
    by (simp_all add: current_def module_state_def Logger_init_def)
next
  assume l: "level self = INFO"
  from Logger_log_at_INFO[OF l]
  show "Logger_log self args INFO io = Logger_do_log self args io"
    "Logger_log self args WARN io = Logger_do_log self args io"
    "Logger_log self args ERROR io = Logger_do_log self args io"
    "Logger_log self args DEBUG io = io"
    "Logger_log (Logger_set_level DEBUG self) args DEBUG io = Logger_do_log self args io"
    by simp_all
next
  assume l: "level (current s) = INFO"
  from log_at_INFO[OF l]
  show "debug args s = s"
    "info args s = s\<lparr>iolog := Logger_do_log (current s) args (iolog s)\<rparr>"
    "warn args s = s\<lparr>iolog := Logger_do_log (current s) args (iolog s)\<rparr>"
    "error args s = s\<lparr>iolog := Logger_do_log (current s) args (iolog s)\<rparr>"
    "debug args (set_level DEBUG s)
        = (set_level DEBUG s)\<lparr>iolog := Logger_do_log (current s) args (iolog s)\<rparr>"
    by simp_all
next
  assume ok: "configure e d' fs s = (Inr (), s')"
  from configure_Inr[OF ok]
  show "level (current s') = INFO" "name2val (current s') = []"
    by (auto simp: current_def Logger_init_def)
qed

text \<open>The first lines of the module's own demo, and the logger of a \<open>configure()\<close>.\<close>

theorem new_logger_level_info_witness:
  "level (current (module_state :: 'f state)) = INFO \<and>
   iolog (info [''hi''] (module_state :: 'f state))
     = [Write Stdout ''hi'', Write Stdout [CHR 0x0A], Flush Stdout] \<and>
   debug [''shouldn't appear''] (module_state :: 'f state) = module_state \<and>
   iolog (debug [''should appear''] (set_level DEBUG (module_state :: 'f state)))
     = [Write Stdout ''should appear'', Write Stdout [CHR 0x0A], Flush Stdout] \<and>
   fst (configure \<lparr>OPENAI_LOGDIR = None, tempdir_now = ''/tmp/openai-run''\<rparr> None None
          (module_state :: 'f state)) = Inr () \<and>
   level (current (snd (configure \<lparr>OPENAI_LOGDIR = None, tempdir_now = ''/tmp/openai-run''\<rparr>
                          None None (module_state :: 'f state)))) = INFO"
proof -
  let ?e = "\<lparr>OPENAI_LOGDIR = None, tempdir_now = ''/tmp/openai-run''\<rparr>"
  let ?s1 = "snd (configure ?e None None (module_state :: 'f state))"
  have first: "configure ?e None None (module_state :: 'f state) = (Inr (), ?s1)"
    using configure_module_state_default[where 'f = 'f] by (simp add: prod_eq_iff)
  have out: "Logger_do_log (current (module_state :: 'f state)) args (iolog (module_state :: 'f state))
               = map (Write Stdout) args @ [Write Stdout [CHR 0x0A], Flush Stdout]" for args
    by (simp add: Logger_do_log_def current_def module_state_def Logger_init_def writeseq_def
          HumanOutputFormat_writeseq_def)
  note n = new_logger_level_info[where s = "module_state :: 'f state" and e = ?e
             and d' = None and fs = None and s' = ?s1 and d = None
             and fmts = "[HumanOutputFormat Stdout]" and io = "[]"
             and self = "current (module_state :: 'f state)"]
  from n have l: "level (current (module_state :: 'f state)) = INFO" by simp
  from n[where args = "[''hi'']"] l
  have 1: "iolog (info [''hi''] (module_state :: 'f state))
            = [Write Stdout ''hi'', Write Stdout [CHR 0x0A], Flush Stdout]"
    by (simp add: out)
  from n[where args = "[''shouldn't appear'']"] l
  have 2: "debug [''shouldn't appear''] (module_state :: 'f state) = module_state"
    by simp
  from n[where args = "[''should appear'']"] l
  have 3: "iolog (debug [''should appear''] (set_level DEBUG (module_state :: 'f state)))
     = [Write Stdout ''should appear'', Write Stdout [CHR 0x0A], Flush Stdout]"
    by (simp add: out)
  from n first have 4: "level (current ?s1) = INFO" by blast
  from l 1 2 3 4 configure_module_state_default[where 'f = 'f] show ?thesis by simp
qed

subsection \<open>\<open>JSONOutputFormat.writekvs\<close>\<close>

lemma json_convert_untouched:
  "json_convert rt items kvs = (r, kvs') \<Longrightarrow>
   \<forall>v. (k, v) \<in> set items \<longrightarrow> \<not> hasattr_dtype v \<Longrightarrow>
   map_of kvs' k = map_of kvs k"
proof (induction items arbitrary: kvs)
  case Nil
  then show ?case by simp
next
  case (Cons kv items)
  obtain k1 v1 where kv: "kv = (k1, v1)" by (cases kv)
  have rest: "\<forall>v. (k, v) \<in> set items \<longrightarrow> \<not> hasattr_dtype v"
    using Cons.prems(2) by simp
  show ?case
  proof (cases "hasattr_dtype v1")
    case False
    with Cons.prems(1) kv have "json_convert rt items kvs = (r, kvs')" by simp
    from Cons.IH[OF this rest] show ?thesis .
  next
    case True
    with Cons.prems(2) kv have ne: "k1 \<noteq> k" by auto
    show ?thesis
    proof (cases "tolist v1")
      case (Inl e)
      with True Cons.prems(1) kv show ?thesis by simp
    next
      case (Inr x)
      show ?thesis
      proof (cases "float_obj rt x")
        case (Inl e)
        with True Inr Cons.prems(1) kv show ?thesis by simp
      next
        case f: (Inr f)
        with True Inr Cons.prems(1) kv
        have "json_convert rt items (AList.update k1 (PyFloat f) kvs) = (r, kvs')" by simp
        from Cons.IH[OF this rest] ne show ?thesis by (simp add: update_conv')
      qed
    qed
  qed
qed

lemma json_convert_converted:
  "json_convert rt items kvs = (Inr u, kvs') \<Longrightarrow> distinct (map fst items) \<Longrightarrow>
   (k, v) \<in> set items \<Longrightarrow> hasattr_dtype v \<Longrightarrow>
   \<exists>x f. tolist v = Inr x \<and> float_obj rt x = Inr f \<and> map_of kvs' k = Some (PyFloat f)"
proof (induction items arbitrary: kvs)
  case Nil
  then show ?case by simp
next
  case (Cons kv items)
  obtain k1 v1 where kv: "kv = (k1, v1)" by (cases kv)
  show ?case
  proof (cases "(k, v) = (k1, v1)")
    case True
    then have kk: "k1 = k" "v1 = v" by simp_all
    from Cons.prems(1,4) kv kk obtain x f where
      x: "tolist v = Inr x" and f: "float_obj rt x = Inr f" and
      rest: "json_convert rt items (AList.update k (PyFloat f) kvs) = (Inr u, kvs')"
      by (auto split: sum.splits)
    have "\<forall>w. (k, w) \<in> set items \<longrightarrow> \<not> hasattr_dtype w"
      using Cons.prems(2) kv kk by (auto simp: image_iff)
    from json_convert_untouched[OF rest this]
    have "map_of kvs' k = Some (PyFloat f)" by (simp add: update_conv')
    with x f show ?thesis by blast
  next
    case False
    with Cons.prems(3) kv have mem: "(k, v) \<in> set items" by auto
    have d: "distinct (map fst items)" using Cons.prems(2) by simp
    from Cons.prems(1) kv obtain kvs1 where "json_convert rt items kvs1 = (Inr u, kvs')"
      by (auto split: if_splits sum.splits)
    from Cons.IH[OF this d mem Cons.prems(4)] show ?thesis .
  qed
qed

lemma distinct_keys_sorted_items:
  "distinct (map fst (sorted_items d)) = distinct (map fst d)"
  by (simp add: sorted_items_def distinct_map)

lemma json_convert_sorted_entries:
  assumes d: "distinct (map fst kvs)"
    and c: "json_convert rt (sorted_items kvs) kvs = (Inr u, kvs')"
    and i: "i < length kvs"
  shows "fst (kvs' ! i) = fst (kvs ! i) \<and>
         (if hasattr_dtype (snd (kvs ! i))
          then \<exists>x f. tolist (snd (kvs ! i)) = Inr x \<and> float_obj rt x = Inr f \<and>
                     snd (kvs' ! i) = PyFloat f
          else snd (kvs' ! i) = snd (kvs ! i))"
proof -
  have keys: "map fst kvs' = map fst kvs" using c by (rule json_convert_sorted_keys)
  then have len: "length kvs' = length kvs" by (metis length_map)
  have fst_eq: "fst (kvs' ! i) = fst (kvs ! i)"
    using keys i len by (metis nth_map)
  have d': "distinct (map fst kvs')" using keys d by simp
  have mem': "kvs' ! i \<in> set kvs'" using i len by simp
  have look': "map_of kvs' (fst (kvs ! i)) = Some (snd (kvs' ! i))"
    using d' mem' fst_eq by (metis map_of_is_SomeI prod.collapse)
  have mem: "(fst (kvs ! i), snd (kvs ! i)) \<in> set kvs" using i by simp
  have look: "map_of kvs (fst (kvs ! i)) = Some (snd (kvs ! i))"
    using d mem by (rule map_of_is_SomeI)
  show ?thesis
  proof (cases "hasattr_dtype (snd (kvs ! i))")
    case True
    have "distinct (map fst (sorted_items kvs))" using d by (simp add: distinct_keys_sorted_items)
    from json_convert_converted[OF c this _ True, of "fst (kvs ! i)"] mem
    obtain x f where "tolist (snd (kvs ! i)) = Inr x" "float_obj rt x = Inr f"
      "map_of kvs' (fst (kvs ! i)) = Some (PyFloat f)"
      by auto
    with look' fst_eq True show ?thesis by auto
  next
    case False
    have "\<forall>v. (fst (kvs ! i), v) \<in> set (sorted_items kvs) \<longrightarrow> \<not> hasattr_dtype v"
    proof (intro allI impI)
      fix v assume "(fst (kvs ! i), v) \<in> set (sorted_items kvs)"
      then have "(fst (kvs ! i), v) \<in> set kvs" by simp
      with d have "map_of kvs (fst (kvs ! i)) = Some v" by (rule map_of_is_SomeI)
      with look have "v = snd (kvs ! i)" by simp
      with False show "\<not> hasattr_dtype v" by simp
    qed
    from json_convert_untouched[OF c this] look look' fst_eq False
    show ?thesis by simp
  qed
qed


lemma json_items_Inr:
  "json_items rt kvs = Inr ss \<Longrightarrow>
   \<exists>vals. length vals = length kvs \<and>
      ss = map2 (\<lambda>k s. json_str k @ '': '' @ s) (map fst kvs) vals \<and>
      (\<forall>i<length kvs. json_val rt (snd (kvs ! i)) = Inr (vals ! i))"
proof (induction kvs arbitrary: ss)
  case Nil
  then show ?case by simp
next
  case (Cons kv kvs)
  obtain k v where kv: "kv = (k, v)" by (cases kv)
  from Cons.prems kv obtain s ss1 where
    s: "json_val rt v = Inr s" and r: "json_items rt kvs = Inr ss1" and
    e: "ss = (json_str k @ '': '' @ s) # ss1"
    by (auto split: sum.splits)
  from Cons.IH[OF r] obtain vals where
    v: "length vals = length kvs"
       "ss1 = map2 (\<lambda>k s. json_str k @ '': '' @ s) (map fst kvs) vals"
       "\<forall>i<length kvs. json_val rt (snd (kvs ! i)) = Inr (vals ! i)"
    by blast
  have "\<forall>i<length (kv # kvs). json_val rt (snd ((kv # kvs) ! i)) = Inr ((s # vals) ! i)"
    using s v(3) kv by (auto simp: nth_Cons split: nat.splits)
  with v(1,2) e kv show ?case
    by (intro exI[of _ "s # vals"]) simp
qed

lemma JSON_writekvs_Inr:
  "JSONOutputFormat_writekvs rt file kvs io = (Inr u, kvs', io') \<Longrightarrow>
   json_convert rt (sorted_items kvs) kvs = (Inr (), kvs') \<and>
   (\<exists>text. json_dumps rt kvs' = Inr text \<and>
       io' = io @ [Write file (text @ [CHR 0x0A]), Flush file])"
  by (auto simp: JSONOutputFormat_writekvs_def split: prod.splits sum.splits)

lemma JSON_writekvs_Inl:
  "JSONOutputFormat_writekvs rt file kvs io = (Inl e, kvs', io') \<Longrightarrow> io' = io"
  by (auto simp: JSONOutputFormat_writekvs_def split: prod.splits sum.splits)

text \<open>A call that raises: where the loop stopped, and what the call returns needs.\<close>

lemma json_convert_Inl:
  "json_convert rt items kvs = (Inl e, kvs') \<Longrightarrow>
   \<exists>pre k0 v0 post x.
      items = pre @ (k0, v0) # post \<and> hasattr_dtype v0 \<and>
      tolist v0 = Inr x \<and> float_obj rt x = Inl e \<and>
      json_convert rt pre kvs = (Inr (), kvs')"
proof (induction items arbitrary: kvs)
  case Nil
  then show ?case by simp
next
  case (Cons kv items)
  obtain k v where kv: "kv = (k, v)" by (cases kv)
  show ?case
  proof (cases "hasattr_dtype v")
    case False
    with Cons.prems kv have "json_convert rt items kvs = (Inl e, kvs')" by simp
    from Cons.IH[OF this] obtain pre k0 v0 post x where
      p: "items = pre @ (k0, v0) # post" "hasattr_dtype v0" "tolist v0 = Inr x"
         "float_obj rt x = Inl e" "json_convert rt pre kvs = (Inr (), kvs')"
      by blast
    have "kv # items = (kv # pre) @ (k0, v0) # post" using p(1) by simp
    moreover have "json_convert rt (kv # pre) kvs = (Inr (), kvs')"
      using p(5) False kv by simp
    ultimately show ?thesis using p(2,3,4) by blast
  next
    case True
    then obtain x where x: "tolist v = Inr x"
      by (cases v) (auto simp: hasattr_dtype_def tolist_def)
    show ?thesis
    proof (cases "float_obj rt x")
      case (Inl e1)
      with True x Cons.prems kv have "e1 = e" "kvs' = kvs" by simp_all
      with True x Inl kv have "kv # items = [] @ (k, v) # items \<and> hasattr_dtype v \<and>
          tolist v = Inr x \<and> float_obj rt x = Inl e \<and> json_convert rt [] kvs = (Inr (), kvs')"
        by simp
      then show ?thesis by blast
    next
      case (Inr f)
      let ?kvs1 = "AList.update k (PyFloat f) kvs"
      from True x Inr Cons.prems kv have "json_convert rt items ?kvs1 = (Inl e, kvs')" by simp
      from Cons.IH[OF this] obtain pre k0 v0 post y where
        p: "items = pre @ (k0, v0) # post" "hasattr_dtype v0" "tolist v0 = Inr y"
           "float_obj rt y = Inl e" "json_convert rt pre ?kvs1 = (Inr (), kvs')"
        by blast
      have "kv # items = (kv # pre) @ (k0, v0) # post" using p(1) by simp
      moreover have "json_convert rt (kv # pre) kvs = (Inr (), kvs')"
        using p(5) True x Inr kv by simp
      ultimately show ?thesis using p(2,3,4) by blast
    qed
  qed
qed

lemma json_convert_succeeds:
  "\<forall>v\<in>snd ` set items. hasattr_dtype v \<longrightarrow> (\<exists>x f. tolist v = Inr x \<and> float_obj rt x = Inr f) \<Longrightarrow>
   \<exists>kvs'. json_convert rt items kvs = (Inr (), kvs')"
proof (induction items arbitrary: kvs)
  case Nil
  then show ?case by simp
next
  case (Cons kv items)
  obtain k v where kv: "kv = (k, v)" by (cases kv)
  have rest: "\<forall>v\<in>snd ` set items. hasattr_dtype v \<longrightarrow>
                 (\<exists>x f. tolist v = Inr x \<and> float_obj rt x = Inr f)"
    using Cons.prems by simp
  show ?case
  proof (cases "hasattr_dtype v")
    case False
    with Cons.IH[OF rest, of kvs] kv show ?thesis by simp
  next
    case True
    with Cons.prems kv obtain x f where "tolist v = Inr x" "float_obj rt x = Inr f" by auto
    with True Cons.IH[OF rest, of "AList.update k (PyFloat f) kvs"] kv show ?thesis by simp
  qed
qed

lemma json_items_succeeds:
  "\<forall>v\<in>snd ` set kvs. \<not> hasattr_dtype v \<Longrightarrow> \<exists>ss. json_items rt kvs = Inr ss"
proof (induction kvs)
  case Nil
  then show ?case by simp
next
  case (Cons kv kvs)
  obtain k v where kv: "kv = (k, v)" by (cases kv)
  from Cons.prems kv have "\<not> hasattr_dtype v" by simp
  then obtain s where "json_val rt v = Inr s"
    by (cases v) (auto simp: hasattr_dtype_def json_val_def)
  moreover from Cons obtain ss where "json_items rt kvs = Inr ss" by auto
  ultimately show ?case using kv by simp
qed

lemma sorted_split_keys:
  assumes s: "sorted (map fst items)" and d: "distinct (map fst items)"
    and e: "items = pre @ (k0, v0) # post"
  shows "(\<forall>k\<in>fst ` set pre. k < k0) \<and> (\<forall>k\<in>fst ` set post. k0 < k)"
proof -
  from s e have "\<forall>k\<in>fst ` set pre. k \<le> k0" "\<forall>k\<in>fst ` set post. k0 \<le> k"
    by (auto simp: sorted_append)
  moreover from d e have "k0 \<notin> fst ` set pre" "k0 \<notin> fst ` set post" by auto
  ultimately show ?thesis by (metis order_le_imp_less_or_eq)
qed


lemma json_dumps_after_convert:
  assumes d: "distinct (map fst kvs)"
    and c: "json_convert rt (sorted_items kvs) kvs = (Inr u, kvs')"
  shows "\<exists>line. json_dumps rt kvs' = Inr line"
proof -
  have keys: "map fst kvs' = map fst kvs" using c by (rule json_convert_sorted_keys)
  then have len: "length kvs' = length kvs" by (metis length_map)
  have "\<forall>v\<in>snd ` set kvs'. \<not> hasattr_dtype v"
  proof
    fix v assume "v \<in> snd ` set kvs'"
    then obtain i where i: "i < length kvs'" "v = snd (kvs' ! i)"
      by (auto simp: in_set_conv_nth)
    from i(1) len have "i < length kvs" by simp
    from json_convert_sorted_entries[OF d c this] i(2)
    show "\<not> hasattr_dtype v"
      by (auto simp: hasattr_dtype_def split: if_splits)
  qed
  from json_items_succeeds[OF this, of rt] show ?thesis
    by (auto simp: json_dumps_def)
qed

lemma JSON_writekvs_Inl_convert:
  assumes d: "distinct (map fst kvs)"
    and w: "JSONOutputFormat_writekvs rt file kvs io = (Inl e, kvs', io')"
  shows "json_convert rt (sorted_items kvs) kvs = (Inl e, kvs')"
proof -
  obtain r kvs1 where c: "json_convert rt (sorted_items kvs) kvs = (r, kvs1)"
    by (cases "json_convert rt (sorted_items kvs) kvs")
  show ?thesis
  proof (cases r)
    case (Inl e1)
    with c w show ?thesis by (simp add: JSONOutputFormat_writekvs_def)
  next
    case (Inr u)
    with c json_dumps_after_convert[OF d] obtain line where "json_dumps rt kvs1 = Inr line"
      by blast
    with c Inr w show ?thesis by (simp add: JSONOutputFormat_writekvs_def)
  qed
qed

lemma JSON_writekvs_Inl_state:
  assumes d: "distinct (map fst kvs)"
    and w: "JSONOutputFormat_writekvs rt file kvs io = (Inl e, kvs', io')"
  shows "map fst kvs' = map fst kvs \<and>
     (\<exists>k0 v0 x. (k0, v0) \<in> set kvs \<and> hasattr_dtype v0 \<and> tolist v0 = Inr x \<and>
        float_obj rt x = Inl e \<and>
        (\<forall>i<length kvs.
            if hasattr_dtype (snd (kvs ! i)) \<and> fst (kvs ! i) < k0
            then \<exists>y f. tolist (snd (kvs ! i)) = Inr y \<and> float_obj rt y = Inr f \<and>
                       snd (kvs' ! i) = PyFloat f
            else snd (kvs' ! i) = snd (kvs ! i)))"
proof -
  from JSON_writekvs_Inl_convert[OF d w]
  have c: "json_convert rt (sorted_items kvs) kvs = (Inl e, kvs')" .
  have keys: "map fst kvs' = map fst kvs" using c by (rule json_convert_sorted_keys)
  then have len: "length kvs' = length kvs" by (metis length_map)
  have d': "distinct (map fst kvs')" using keys d by simp
  from json_convert_Inl[OF c] obtain pre k0 v0 post x where
    sp: "sorted_items kvs = pre @ (k0, v0) # post" and
    v0: "hasattr_dtype v0" "tolist v0 = Inr x" "float_obj rt x = Inl e" and
    cp: "json_convert rt pre kvs = (Inr (), kvs')"
    by blast
  have srt: "sorted (map fst (sorted_items kvs))" by (simp add: sorted_items_def)
  have dst: "distinct (map fst (sorted_items kvs))" using d by (simp add: distinct_keys_sorted_items)
  from sorted_split_keys[OF srt dst sp]
  have lt: "\<forall>k\<in>fst ` set pre. k < k0" and gt: "\<forall>k\<in>fst ` set post. k0 < k" by simp_all
  have dpre: "distinct (map fst pre)" using dst sp by simp
  have setk: "set kvs = set pre \<union> {(k0, v0)} \<union> set post"
    using sp by (metis set_sorted_items set_append list.simps(15) Un_insert_right
        sup_bot.right_neutral Un_assoc insert_is_Un)
  have mem0: "(k0, v0) \<in> set kvs" using setk by simp
  have "\<forall>i<length kvs.
            if hasattr_dtype (snd (kvs ! i)) \<and> fst (kvs ! i) < k0
            then \<exists>y f. tolist (snd (kvs ! i)) = Inr y \<and> float_obj rt y = Inr f \<and>
                       snd (kvs' ! i) = PyFloat f
            else snd (kvs' ! i) = snd (kvs ! i)"
  proof (intro allI impI)
    fix i assume i: "i < length kvs"
    let ?k = "fst (kvs ! i)" and ?v = "snd (kvs ! i)"
    have fst_eq: "fst (kvs' ! i) = ?k" using keys i len by (metis nth_map)
    have mem': "kvs' ! i \<in> set kvs'" using i len by simp
    have look': "map_of kvs' ?k = Some (snd (kvs' ! i))"
      using d' mem' fst_eq by (metis map_of_is_SomeI prod.collapse)
    have mem: "(?k, ?v) \<in> set kvs" using i by simp
    have look: "map_of kvs ?k = Some ?v" using d mem by (rule map_of_is_SomeI)
    show "if hasattr_dtype ?v \<and> ?k < k0
            then \<exists>y f. tolist ?v = Inr y \<and> float_obj rt y = Inr f \<and> snd (kvs' ! i) = PyFloat f
            else snd (kvs' ! i) = ?v"
    proof (cases "hasattr_dtype ?v \<and> ?k < k0")
      case True
      then have dt: "hasattr_dtype ?v" and less: "?k < k0" by simp_all
      have "(?k, ?v) \<in> set pre"
      proof -
        from less have "?k \<noteq> k0" by simp
        moreover from less gt have "?k \<notin> fst ` set post" by (metis order_less_asym)
        ultimately show ?thesis using mem setk by (auto simp: image_iff)
      qed
      from json_convert_converted[OF cp dpre this dt] look' True show ?thesis by auto
    next
      case False
      have "\<forall>w. (?k, w) \<in> set pre \<longrightarrow> \<not> hasattr_dtype w"
      proof (intro allI impI)
        fix w assume p: "(?k, w) \<in> set pre"
        then have "(?k, w) \<in> set kvs" using setk by simp
        with d have "map_of kvs ?k = Some w" by (rule map_of_is_SomeI)
        with look have "w = ?v" by simp
        moreover from p lt have "?k < k0" by (metis fst_conv image_eqI)
        ultimately show "\<not> hasattr_dtype w" using False by simp
      qed
      from json_convert_untouched[OF cp this] look look' False show ?thesis by auto
    qed
  qed
  with keys mem0 v0 show ?thesis by blast
qed

lemma JSON_writekvs_returns_iff:
  assumes d: "distinct (map fst kvs)"
  shows "(\<exists>kvs' io'. JSONOutputFormat_writekvs rt file kvs io = (Inr (), kvs', io')) \<longleftrightarrow>
         (\<forall>v\<in>snd ` set kvs. hasattr_dtype v \<longrightarrow>
             (\<exists>x f. tolist v = Inr x \<and> float_obj rt x = Inr f))"
proof
  assume "\<exists>kvs' io'. JSONOutputFormat_writekvs rt file kvs io = (Inr (), kvs', io')"
  then obtain kvs' io' where w: "JSONOutputFormat_writekvs rt file kvs io = (Inr (), kvs', io')"
    by blast
  from JSON_writekvs_Inr[OF w]
  have c: "json_convert rt (sorted_items kvs) kvs = (Inr (), kvs')" by blast
  show "\<forall>v\<in>snd ` set kvs. hasattr_dtype v \<longrightarrow>
             (\<exists>x f. tolist v = Inr x \<and> float_obj rt x = Inr f)"
  proof (intro ballI impI)
    fix v assume "v \<in> snd ` set kvs" and dt: "hasattr_dtype v"
    then obtain i where i: "i < length kvs" "v = snd (kvs ! i)"
      by (auto simp: in_set_conv_nth)
    from json_convert_sorted_entries[OF d c i(1)] i(2) dt
    show "\<exists>x f. tolist v = Inr x \<and> float_obj rt x = Inr f" by auto
  qed
next
  assume a: "\<forall>v\<in>snd ` set kvs. hasattr_dtype v \<longrightarrow>
             (\<exists>x f. tolist v = Inr x \<and> float_obj rt x = Inr f)"
  then have "\<forall>v\<in>snd ` set (sorted_items kvs). hasattr_dtype v \<longrightarrow>
             (\<exists>x f. tolist v = Inr x \<and> float_obj rt x = Inr f)"
    by simp
  from json_convert_succeeds[OF this, of kvs] obtain kvs' where
    c: "json_convert rt (sorted_items kvs) kvs = (Inr (), kvs')" by blast
  from json_dumps_after_convert[OF d c] obtain line where "json_dumps rt kvs' = Inr line"
    by blast
  with c show "\<exists>kvs' io'. JSONOutputFormat_writekvs rt file kvs io = (Inr (), kvs', io')"
    by (simp add: JSONOutputFormat_writekvs_def)
qed




lemma writekvs_loop_JSON_raises:
  "JSONOutputFormat_writekvs rt file kvs io = (Inl e, kvs', io') \<Longrightarrow>
   writekvs_loop rt (JSONOutputFormat file # fmts) kvs io
     = (Inl e, JSONOutputFormat file # fmts, kvs', io')"
  by (simp add: writekvs_def)

lemma converted_by_constructor:
  assumes "if hasattr_dtype v
           then \<exists>x f. tolist v = Inr x \<and> float_obj rt x = Inr f \<and> v' = PyFloat f
           else v' = v"
  shows "(\<forall>f. v = NpFloat64 f \<longrightarrow> v' = PyFloat f) \<and>
         (\<forall>f. v = NdArray (ObjFloat f) \<longrightarrow> v' = PyFloat f) \<and>
         (\<forall>n. v = NdArray (ObjInt n) \<longrightarrow> (\<exists>g. float_of_int rt n = Inr g \<and> v' = PyFloat g)) \<and>
         (\<forall>s. v = NdArray (ObjStr s) \<longrightarrow> (\<exists>g. float_of_str rt s = Inr g \<and> v' = PyFloat g)) \<and>
         (\<forall>xs. v \<noteq> NdArray (ObjList xs)) \<and>
         (\<forall>n. v = PyInt n \<longrightarrow> v' = v) \<and> (\<forall>f. v = PyFloat f \<longrightarrow> v' = v) \<and>
         (\<forall>s. v = PyStr s \<longrightarrow> v' = v)"
  using assms by (cases v) (auto simp: hasattr_dtype_def tolist_def float_obj_def)



lemma json_float64_and_int:
  "JSONOutputFormat_writekvs rt file [(''loss'', NpFloat64 f), (''n'', PyInt 3)] io
     = (Inr (), [(''loss'', PyFloat f), (''n'', PyInt 3)],
        io @ [Write file (''{'' @ [CHR 0x22] @ ''loss'' @ [CHR 0x22] @ '': '' @ repr_float rt f @
                          '', '' @ [CHR 0x22] @ ''n'' @ [CHR 0x22] @ '': 3}'' @ [CHR 0x0A]),
              Flush file])"
  by (simp add: JSONOutputFormat_writekvs_def sorted_items_def hasattr_dtype_def tolist_def
        float_obj_def json_dumps_def json_val_def json_str_def json_escape_char_def str_int_def)

lemma json_array_then_float64:
  "JSONOutputFormat_writekvs rt file
      [(''b'', NdArray (ObjList [ObjInt 1, ObjInt 2])), (''a'', NpFloat64 f)] io
     = (Inl TypeError, [(''b'', NdArray (ObjList [ObjInt 1, ObjInt 2])), (''a'', PyFloat f)], io)"
  by (simp add: JSONOutputFormat_writekvs_def sorted_items_def hasattr_dtype_def tolist_def
        float_obj_def)

lemma json_array_between_float64s:
  "JSONOutputFormat_writekvs rt file
      [(''b'', NdArray (ObjList [ObjInt 1, ObjInt 2])), (''c'', NpFloat64 f), (''a'', NpFloat64 f)] io
     = (Inl TypeError,
        [(''b'', NdArray (ObjList [ObjInt 1, ObjInt 2])), (''c'', NpFloat64 f), (''a'', PyFloat f)],
        io)"
  by (simp add: JSONOutputFormat_writekvs_def sorted_items_def hasattr_dtype_def tolist_def
        float_obj_def)

lemma json_int64_str_float64:
  "JSONOutputFormat_writekvs (rt\<lparr>float_of_int := (\<lambda>i. Inr g)\<rparr>) file
      [(''loss'', NpFloat64 f), (''n'', NdArray (ObjInt 3)), (''tag'', PyStr ''x'')] io
     = (Inr (), [(''loss'', PyFloat f), (''n'', PyFloat g), (''tag'', PyStr ''x'')],
        io @ [Write file (''{'' @ [CHR 0x22] @ ''loss'' @ [CHR 0x22] @ '': '' @ repr_float rt f @
                          '', '' @ [CHR 0x22] @ ''n'' @ [CHR 0x22] @ '': '' @ repr_float rt g @
                          '', '' @ [CHR 0x22] @ ''tag'' @ [CHR 0x22] @ '': '' @
                          [CHR 0x22] @ ''x'' @ [CHR 0x22] @ ''}'' @ [CHR 0x0A]),
              Flush file])"
  by (simp add: JSONOutputFormat_writekvs_def sorted_items_def hasattr_dtype_def tolist_def
        float_obj_def json_dumps_def json_val_def json_str_def json_escape_char_def)

lemma json_empty_array_in_the_middle:
  "JSONOutputFormat_writekvs rt file
      [(''m'', NdArray (ObjList [])), (''k'', NpFloat64 f), (''z'', NpFloat64 f)] io
     = (Inl TypeError, [(''m'', NdArray (ObjList [])), (''k'', PyFloat f), (''z'', NpFloat64 f)], io)"
  by (simp add: JSONOutputFormat_writekvs_def sorted_items_def hasattr_dtype_def tolist_def
        float_obj_def)







end
